theory Spec2Isabelle
  imports Complex_Main "HOL-Library.Word" "HOL-Library.Sublist"
begin

section \<open>JavaScript strings\<close>

text \<open>
  A JavaScript string is a sequence of UTF-16 code units: \<open>length\<close> counts code units
  and \<open>includes\<close> looks for a contiguous run of them. \<open>ascii\<close> embeds an ASCII
  literal; the Chinese literals of the source are written as their code units.
\<close>

type_synonym code_unit = "16 word"
type_synonym js_string = "code_unit list"

definition ascii :: "string \<Rightarrow> js_string" where
  "ascii s = map of_char s"

text \<open>
  \<open>String.prototype.toLowerCase\<close>, unit by unit, on the capitals of ASCII and of
  Latin-1, on KELVIN SIGN (whose lower case is \<open>k\<close>) and on ANGSTROM SIGN; every other
  code unit is left as it is. The built-in changes further code units (Greek and
  Cyrillic capitals, U+0130 and others), but it leaves the small ASCII letters, the
  hyphen and the CJK ideographs as they are, and the lower case it gives to any of
  those further code units holds a code unit that is neither an ASCII character nor a
  CJK ideograph. So the two tests that the source makes on a lower-cased string have the
  same outcome on the model: membership in a list of ASCII words, and containment of a
  keyword made of CJK ideographs.
\<close>

definition lower_unit :: "code_unit \<Rightarrow> code_unit" where
  "lower_unit u =
     (if (0x41 \<le> u \<and> u \<le> 0x5A) \<or> (0xC0 \<le> u \<and> u \<le> 0xDE \<and> u \<noteq> 0xD7) then u + 0x20
      else if u = 0x212A then 0x6B
      else if u = 0x212B then 0xE5
      else u)"

definition toLowerCase :: "js_string \<Rightarrow> js_string" where
  "toLowerCase s = map lower_unit s"

text \<open>\<open>s.includes(k)\<close>: some suffix of \<open>s\<close> starts with \<open>k\<close>.\<close>

fun includes_str :: "js_string \<Rightarrow> js_string \<Rightarrow> bool" where
  "includes_str [] k = (k = [])"
| "includes_str (u # s) k = (prefix k (u # s) \<or> includes_str s k)"

text \<open>\<open>s.replace(pat, rep)\<close> with a string pattern replaces the first occurrence only.\<close>

fun replace :: "js_string \<Rightarrow> js_string \<Rightarrow> js_string \<Rightarrow> js_string" where
  "replace [] pat rep = (if pat = [] then rep else [])"
| "replace (u # s) pat rep =
     (if prefix pat (u # s) then rep @ drop (length pat) (u # s)
      else u # replace s pat rep)"

text \<open>
  \<open>s.split(/\\s+/).length\<close> is one more than the number of maximal runs of white
  space in \<open>s\<close>; \<open>isWhiteSpace\<close> is the class \<open>\\s\<close> of ECMAScript.
\<close>

definition isWhiteSpace :: "code_unit \<Rightarrow> bool" where
  "isWhiteSpace u \<longleftrightarrow>
     (0x09 \<le> u \<and> u \<le> 0x0D) \<or> u = 0x20 \<or> u = 0xA0 \<or> u = 0x1680 \<or>
     (0x2000 \<le> u \<and> u \<le> 0x200A) \<or> u = 0x2028 \<or> u = 0x2029 \<or> u = 0x202F \<or>
     u = 0x205F \<or> u = 0x3000 \<or> u = 0xFEFF"

fun whiteSpaceRuns :: "js_string \<Rightarrow> nat" where
  "whiteSpaceRuns [] = 0"
| "whiteSpaceRuns [u] = (if isWhiteSpace u then 1 else 0)"
| "whiteSpaceRuns (u # v # s) =
     (if isWhiteSpace u \<and> \<not> isWhiteSpace v then 1 else 0) + whiteSpaceRuns (v # s)"

definition splitWhiteSpaceLength :: "js_string \<Rightarrow> nat" where
  "splitWhiteSpaceLength s = whiteSpaceRuns s + 1"

text \<open>A non-negative integer in a template literal: its decimal digits.\<close>

fun decimal :: "nat \<Rightarrow> js_string" where
  "decimal n =
     (if n < 10 then [0x30 + of_nat n]
      else decimal (n div 10) @ [0x30 + of_nat (n mod 10)])"

declare decimal.simps [simp del]

section \<open>Long-term fact store\<close>

text \<open>
  The table \<open>long_term_memories\<close> of the database schema and the stored procedure
  \<open>upsert_long_term_memory\<close>. A table is the list of its rows. The column
  \<open>confidence REAL\<close> is modelled by a real number (rounding of the 4-byte float is not
  modelled), \<open>key TEXT\<close> is nullable and modelled by an option, the UUID that
  \<open>uuid_generate_v4()\<close> draws and the value of \<open>now()\<close> are parameters.
\<close>

type_synonym uuid = nat
type_synonym timestamptz = int

record long_term_memory =
  ltm_id :: uuid
  ltm_user_id :: string
  ltm_npc_id :: string
  ltm_category :: string
  ltm_key :: "string option"
  ltm_value :: string
  ltm_confidence :: real
  ltm_last_seen_at :: timestamptz
  ltm_created_at :: timestamptz

text \<open>
  The arbiter of \<open>ON CONFLICT (user_id, npc_id, category, key)\<close> is the constraint
  \<open>UNIQUE(user_id, npc_id, category, key)\<close>. A unique constraint compares with SQL
  equality, under which a NULL key equals nothing, itself included: a row proposed with a
  NULL key conflicts with no row.
\<close>

definition conflict_target ::
  "string \<Rightarrow> string \<Rightarrow> string \<Rightarrow> string option \<Rightarrow> long_term_memory \<Rightarrow> bool" where
  "conflict_target p_user_id p_npc_id p_category p_key r \<longleftrightarrow>
     ltm_user_id r = p_user_id \<and> ltm_npc_id r = p_npc_id \<and> ltm_category r = p_category \<and>
     (case p_key of None \<Rightarrow> False | Some k \<Rightarrow> ltm_key r = Some k)"

text \<open>The \<open>DO UPDATE SET\<close> clause, applied to the existing row.\<close>

definition do_update :: "timestamptz \<Rightarrow> string \<Rightarrow> real \<Rightarrow> long_term_memory \<Rightarrow> long_term_memory" where
  "do_update now p_value p_confidence r =
     r\<lparr>ltm_value := p_value,
       ltm_confidence := min 1.0 (ltm_confidence r * 0.7 + p_confidence * 0.3),
       ltm_last_seen_at := now\<rparr>"

fun on_conflict_do_update ::
  "(long_term_memory \<Rightarrow> bool) \<Rightarrow> (long_term_memory \<Rightarrow> long_term_memory) \<Rightarrow>
   long_term_memory list \<Rightarrow> (uuid \<times> long_term_memory list) option" where
  "on_conflict_do_update c f [] = None"
| "on_conflict_do_update c f (r # rs) =
     (if c r then Some (ltm_id r, f r # rs)
      else (case on_conflict_do_update c f rs of
              None \<Rightarrow> None
            | Some (i, rs') \<Rightarrow> Some (i, r # rs')))"

definition upsert_long_term_memory ::
  "timestamptz \<Rightarrow> uuid \<Rightarrow> string \<Rightarrow> string \<Rightarrow> string \<Rightarrow> string option \<Rightarrow> string \<Rightarrow> real \<Rightarrow>
   long_term_memory list \<Rightarrow> uuid \<times> long_term_memory list" where
  "upsert_long_term_memory now fresh p_user_id p_npc_id p_category p_key p_value p_confidence tbl =
     (case on_conflict_do_update (conflict_target p_user_id p_npc_id p_category p_key)
             (do_update now p_value p_confidence) tbl of
        Some res \<Rightarrow> res
      | None \<Rightarrow>
          (fresh,
           tbl @ [\<lparr>ltm_id = fresh, ltm_user_id = p_user_id, ltm_npc_id = p_npc_id,
                   ltm_category = p_category, ltm_key = p_key, ltm_value = p_value,
                   ltm_confidence = p_confidence, ltm_last_seen_at = now,
                   ltm_created_at = now\<rparr>]))"

text \<open>The merge rule in the words of the specification.\<close>

definition clamp :: "real \<Rightarrow> real \<Rightarrow> real \<Rightarrow> real" where
  "clamp x lo hi = max lo (min hi x)"

definition spec_merged_confidence :: "real \<Rightarrow> real \<Rightarrow> real" where
  "spec_merged_confidence oldConfidence newConfidence =
     clamp (oldConfidence * 0.7 + newConfidence * 0.3) 0 1"


section \<open>Memory manager: the memory structure\<close>

text \<open>
  The reading of the clock by \<open>new Date()\<close>: the two methods the source calls on it.
  All readings made during one call are taken to be the same instant.
\<close>

record date =
  toISOString :: js_string
  getHours :: nat

text \<open>
  The object built by \<open>createNewMemoryStructure\<close>, section by section. Counters are
  natural numbers, scores are reals (the source's doubles, rounding not modelled),
  a property that starts as \<open>null\<close> is an option, an object used as a dictionary is an
  association list in insertion order. The arrays that the functions modelled here
  never fill are lists of strings.
\<close>

datatype communication_style = formal | casual | intimate

record special_moment =
  moment_content :: js_string
  moment_timestamp :: js_string
  moment_importance :: real

record user_profile =
  name :: "js_string option"
  nickname :: "js_string option"
  age :: "js_string option"
  personality :: "js_string option"
  background :: "js_string option"
  currentMood :: js_string
  secrets :: "js_string list"
  goals :: "js_string list"
  fears :: "js_string list"
  lastProfileUpdate :: "js_string option"

record milestones =
  firstMeeting :: "js_string option"
  firstSecret :: "js_string option"
  deepConversation :: "js_string option"
  firstCompliment :: "js_string option"
  firstArgument :: "js_string option"

record relationship_state =
  level :: nat
  trust :: real
  intimacy :: real
  affection :: real
  specialMoments :: "special_moment list"
  nicknames :: "js_string list"
  relationshipMilestones :: milestones
  communicationStyle :: communication_style

record topic_memories =
  work :: "js_string list"
  family :: "js_string list"
  hobbies :: "js_string list"
  relationships :: "js_string list"
  dreams :: "js_string list"
  problems :: "js_string list"
  preferences :: "js_string list"
  dislikes :: "js_string list"

record temporal_context =
  lastChatTime :: "js_string option"
  chatFrequency :: nat
  preferredChatTimes :: "js_string list"
  longestConversation :: nat
  averageResponseTime :: real
  timeZone :: js_string
  dailyInteractions :: "(js_string \<times> nat) list"

record emotional_tone =
  positive :: nat
  negative :: nat
  neutral :: nat

record statistics_state =
  totalMessages :: nat
  totalCharacters :: nat
  averageMessageLength :: real
  emotionalTone :: emotional_tone
  topicsDiscussed :: "(js_string \<times> nat) list"
  memoryImportance :: "(js_string \<times> real) list"

record character_specific =
  sharedExperiences :: "js_string list"
  insideJokes :: "js_string list"
  conflictHistory :: "js_string list"
  gifts :: "js_string list"
  promises :: "js_string list"
  futureePlans :: "js_string list"

text \<open>
  A chat message as \<open>addChatMessage\<close> and \<open>updateRelationshipMetrics\<close> read it (its
  content and its emotion tag; no other property of the message is read), and the
  entry pushed on the history: the message spread, with two more properties.
\<close>

record message =
  content :: js_string
  emotion :: "js_string option"

record chat_entry = message +
  messageLength :: nat
  wordsCount :: nat

record memory =
  userId :: js_string
  characterId :: js_string
  createdAt :: js_string
  lastUpdated :: js_string
  memoryVersion :: js_string
  userProfile :: user_profile
  relationship :: relationship_state
  fullChatHistory :: "chat_entry list"
  topicMemories :: topic_memories
  temporalContext :: temporal_context
  statistics :: statistics_state
  characterSpecific :: character_specific

text \<open>
  A record as it lies in a store (the column \<open>memory_data\<close>, or a parsed file). Each
  top-level property may be missing or \<open>null\<close>; a section that is there is taken to have
  the shape above.
\<close>

record stored_memory =
  s_userId :: "js_string option"
  s_characterId :: "js_string option"
  s_createdAt :: "js_string option"
  s_lastUpdated :: "js_string option"
  s_memoryVersion :: "js_string option"
  s_userProfile :: "user_profile option"
  s_relationship :: "relationship_state option"
  s_fullChatHistory :: "chat_entry list option"
  s_topicMemories :: "topic_memories option"
  s_temporalContext :: "temporal_context option"
  s_statistics :: "statistics_state option"
  s_characterSpecific :: "character_specific option"

datatype error =
    InvalidCharacterId js_string
  | CannotCreateMemory js_string
  | CannotSaveMemory js_string
  | MemoryCharacterIdMismatch js_string js_string
  | InvalidMemoryFilePath js_string

subsection \<open>The character registry\<close>

definition validCharacters :: "js_string list" where
  "validCharacters =
     [ascii ''alice'', ascii ''ash'', ascii ''bobo'', ascii ''elinyaa'', ascii ''fliza'',
      ascii ''imeris'', ascii ''kyoko'', ascii ''lena'', ascii ''lilium'', ascii ''maple'',
      ascii ''miru'', ascii ''miumiu'', ascii ''neco'', ascii ''nekona'', ascii ''notia'',
      ascii ''ququ'', ascii ''rainy'', ascii ''rindo'', ascii ''sikirei'', ascii ''vivi'',
      ascii ''wolf'', ascii ''wolferia'', ascii ''yawl'', ascii ''yuu-yii'', ascii ''zwei'']"

definition isValidCharacterId :: "js_string \<Rightarrow> bool" where
  "isValidCharacterId cid \<longleftrightarrow> toLowerCase cid \<in> set validCharacters"

subsection \<open>createNewMemoryStructure and ensureMemoryStructure\<close>

definition createNewMemoryStructure :: "date \<Rightarrow> js_string \<Rightarrow> js_string \<Rightarrow> error + memory" where
  "createNewMemoryStructure now uid cid =
     (if \<not> isValidCharacterId cid then Inl (CannotCreateMemory cid)
      else Inr
        \<lparr>userId = uid,
         characterId = cid,
         createdAt = toISOString now,
         lastUpdated = toISOString now,
         memoryVersion = ascii ''2.0'',
         userProfile =
           \<lparr>name = None, nickname = None, age = None, personality = None, background = None,
            currentMood = ascii ''neutral'', secrets = [], goals = [], fears = [],
            lastProfileUpdate = None\<rparr>,
         relationship =
           \<lparr>level = 1, trust = 10, intimacy = 5, affection = 10, specialMoments = [],
            nicknames = [],
            relationshipMilestones =
              \<lparr>firstMeeting = Some (toISOString now), firstSecret = None,
               deepConversation = None, firstCompliment = None, firstArgument = None\<rparr>,
            communicationStyle = formal\<rparr>,
         fullChatHistory = [],
         topicMemories =
           \<lparr>work = [], family = [], hobbies = [], relationships = [], dreams = [],
            problems = [], preferences = [], dislikes = []\<rparr>,
         temporalContext =
           \<lparr>lastChatTime = None, chatFrequency = 0, preferredChatTimes = [],
            longestConversation = 0, averageResponseTime = 0,
            timeZone = ascii ''Asia/Shanghai'', dailyInteractions = []\<rparr>,
         statistics =
           \<lparr>totalMessages = 0, totalCharacters = 0, averageMessageLength = 0,
            emotionalTone = \<lparr>positive = 0, negative = 0, neutral = 0\<rparr>,
            topicsDiscussed = [], memoryImportance = []\<rparr>,
         characterSpecific =
           \<lparr>sharedExperiences = [], insideJokes = [], conflictHistory = [], gifts = [],
            promises = [], futureePlans = []\<rparr>\<rparr>)"

text \<open>
  \<open>deepMerge(target, source)\<close> on the typed structure, property by property. A property
  of the source that is \<open>undefined\<close> or \<open>null\<close> leaves the target's as it is; a number,
  a string or an array replaces the target's; an object is merged into the target's
  object in the same way. A section of the source that is there has the properties of
  the shape above, so its numbers, strings and arrays replace the target's, its
  properties that are \<open>null\<close> leave the target's, and the entries of its dictionaries
  are written into the target's dictionaries.
\<close>

definition overrides :: "'a option \<Rightarrow> 'a \<Rightarrow> 'a" where
  "overrides src tgt = (case src of None \<Rightarrow> tgt | Some v \<Rightarrow> v)"

definition overrides_nullable :: "'a option \<Rightarrow> 'a option \<Rightarrow> 'a option" where
  "overrides_nullable src tgt = (case src of None \<Rightarrow> tgt | Some v \<Rightarrow> Some v)"

fun assign :: "'k \<Rightarrow> 'v \<Rightarrow> ('k \<times> 'v) list \<Rightarrow> ('k \<times> 'v) list" where
  "assign k v [] = [(k, v)]"
| "assign k v ((k', v') # kvs) =
     (if k' = k then (k', v) # kvs else (k', v') # assign k v kvs)"

definition mergeDictionary :: "('k \<times> 'v) list \<Rightarrow> ('k \<times> 'v) list \<Rightarrow> ('k \<times> 'v) list" where
  "mergeDictionary target source = foldl (\<lambda>acc kv. assign (fst kv) (snd kv) acc) target source"

definition mergeUserProfile :: "user_profile \<Rightarrow> user_profile \<Rightarrow> user_profile" where
  "mergeUserProfile target source =
     \<lparr>name = overrides_nullable (name source) (name target),
      nickname = overrides_nullable (nickname source) (nickname target),
      age = overrides_nullable (age source) (age target),
      personality = overrides_nullable (personality source) (personality target),
      background = overrides_nullable (background source) (background target),
      currentMood = currentMood source,
      secrets = secrets source,
      goals = goals source,
      fears = fears source,
      lastProfileUpdate =
        overrides_nullable (lastProfileUpdate source) (lastProfileUpdate target)\<rparr>"

definition mergeMilestones :: "milestones \<Rightarrow> milestones \<Rightarrow> milestones" where
  "mergeMilestones target source =
     \<lparr>firstMeeting = overrides_nullable (firstMeeting source) (firstMeeting target),
      firstSecret = overrides_nullable (firstSecret source) (firstSecret target),
      deepConversation = overrides_nullable (deepConversation source) (deepConversation target),
      firstCompliment = overrides_nullable (firstCompliment source) (firstCompliment target),
      firstArgument = overrides_nullable (firstArgument source) (firstArgument target)\<rparr>"

definition mergeRelationship :: "relationship_state \<Rightarrow> relationship_state \<Rightarrow> relationship_state" where
  "mergeRelationship target source =
     \<lparr>level = level source,
      trust = trust source,
      intimacy = intimacy source,
      affection = affection source,
      specialMoments = specialMoments source,
      nicknames = nicknames source,
      relationshipMilestones =
        mergeMilestones (relationshipMilestones target) (relationshipMilestones source),
      communicationStyle = communicationStyle source\<rparr>"

definition mergeTemporalContext :: "temporal_context \<Rightarrow> temporal_context \<Rightarrow> temporal_context" where
  "mergeTemporalContext target source =
     \<lparr>lastChatTime = overrides_nullable (lastChatTime source) (lastChatTime target),
      chatFrequency = chatFrequency source,
      preferredChatTimes = preferredChatTimes source,
      longestConversation = longestConversation source,
      averageResponseTime = averageResponseTime source,
      timeZone = timeZone source,
      dailyInteractions =
        mergeDictionary (dailyInteractions target) (dailyInteractions source)\<rparr>"

definition mergeStatistics :: "statistics_state \<Rightarrow> statistics_state \<Rightarrow> statistics_state" where
  "mergeStatistics target source =
     \<lparr>totalMessages = totalMessages source,
      totalCharacters = totalCharacters source,
      averageMessageLength = averageMessageLength source,
      emotionalTone = emotionalTone source,
      topicsDiscussed = mergeDictionary (topicsDiscussed target) (topicsDiscussed source),
      memoryImportance =
        mergeDictionary (memoryImportance target) (memoryImportance source)\<rparr>"

text \<open>
  The sections \<open>topicMemories\<close> and \<open>characterSpecific\<close> hold arrays only, and
  \<open>emotionalTone\<close> numbers only: merged property by property, each is the source's.
\<close>

definition deepMerge :: "memory \<Rightarrow> stored_memory \<Rightarrow> memory" where
  "deepMerge target source =
     \<lparr>userId = overrides (s_userId source) (userId target),
      characterId = overrides (s_characterId source) (characterId target),
      createdAt = overrides (s_createdAt source) (createdAt target),
      lastUpdated = overrides (s_lastUpdated source) (lastUpdated target),
      memoryVersion = overrides (s_memoryVersion source) (memoryVersion target),
      userProfile =
        (case s_userProfile source of
           None \<Rightarrow> userProfile target
         | Some section \<Rightarrow> mergeUserProfile (userProfile target) section),
      relationship =
        (case s_relationship source of
           None \<Rightarrow> relationship target
         | Some section \<Rightarrow> mergeRelationship (relationship target) section),
      fullChatHistory = overrides (s_fullChatHistory source) (fullChatHistory target),
      topicMemories = overrides (s_topicMemories source) (topicMemories target),
      temporalContext =
        (case s_temporalContext source of
           None \<Rightarrow> temporalContext target
         | Some section \<Rightarrow> mergeTemporalContext (temporalContext target) section),
      statistics =
        (case s_statistics source of
           None \<Rightarrow> statistics target
         | Some section \<Rightarrow> mergeStatistics (statistics target) section),
      characterSpecific = overrides (s_characterSpecific source) (characterSpecific target)\<rparr>"

text \<open>
  The guard \<open>memory.characterId && memory.characterId !== characterId\<close>: a missing
  identifier and the empty string are falsy.
\<close>

definition ensureMemoryStructure ::
  "date \<Rightarrow> stored_memory \<Rightarrow> js_string \<Rightarrow> js_string \<Rightarrow> error + memory" where
  "ensureMemoryStructure now mem uid cid =
     (if (case s_characterId mem of None \<Rightarrow> False | Some c \<Rightarrow> c \<noteq> [] \<and> c \<noteq> cid)
      then createNewMemoryStructure now uid cid
      else (case createNewMemoryStructure now uid cid of
              Inl e \<Rightarrow> Inl e
            | Inr newStructure \<Rightarrow>
                Inr ((deepMerge newStructure mem)\<lparr>characterId := cid, userId := uid\<rparr>)))"


section \<open>Memory manager: the persistence layer\<close>

text \<open>
  The two stores behind \<open>getUserMemory\<close> and \<open>saveUserMemory\<close>. The Supabase project
  is outside the repository: its state is a value of an arbitrary type \<open>'r\<close>, and the two
  requests the source sends are functions of the environment. \<open>supabase_isAvailable\<close>
  says that the client was configured. \<open>select_memory_data\<close> is
  the \<open>data.memory_data\<close> of the answer to the \<open>select ... single()\<close> request (\<open>None\<close>
  when the answer has no data or carries an error); \<open>upsert_user_memory\<close> is the state
  after the \<open>upsert\<close> request (\<open>None\<close> when the answer carries an error). The client
  reports a failed request in its answer; it does not throw.
  The directory of memory files is a map from paths to file contents. \<open>path.join\<close> and
  the constant \<open>MEMORIES_DIR\<close> come with the environment too.
  Every request to either store is appended to \<open>io_log\<close>.
\<close>

datatype file_content = NotJson | Json stored_memory

datatype io_event =
    SupabaseSelect js_string js_string
  | SupabaseUpsert js_string js_string
  | ReadFile js_string
  | WriteFile js_string

record 'r env =
  supabase_isAvailable :: bool
  select_memory_data :: "'r \<Rightarrow> js_string \<Rightarrow> js_string \<Rightarrow> stored_memory option"
  upsert_user_memory :: "'r \<Rightarrow> js_string \<Rightarrow> js_string \<Rightarrow> stored_memory \<Rightarrow> 'r option"
  MEMORIES_DIR :: js_string
  path_join :: "js_string \<Rightarrow> js_string \<Rightarrow> js_string"
  fs_writable :: bool

record 'r store =
  user_memories :: 'r
  files :: "js_string \<rightharpoonup> file_content"
  io_log :: "io_event list"

definition logged :: "io_event \<Rightarrow> 'r store \<Rightarrow> 'r store" where
  "logged ev s = s\<lparr>io_log := io_log s @ [ev]\<rparr>"

definition memoryFile :: "'r env \<Rightarrow> js_string \<Rightarrow> js_string \<Rightarrow> js_string" where
  "memoryFile env uid cid =
     path_join env (MEMORIES_DIR env) (uid @ ascii ''_'' @ cid @ ascii ''.json'')"

text \<open>
  The body of the \<open>try\<close> block of \<open>getUserMemory\<close>. An error result is a \<open>throw\<close>.
  A file that is missing or is not JSON makes the inner \<open>try\<close> fail, and control
  falls through to the creation of a new structure.
\<close>

definition getUserMemory_try ::
  "'r env \<Rightarrow> date \<Rightarrow> 'r store \<Rightarrow> js_string \<Rightarrow> js_string \<Rightarrow> (error + memory) \<times> 'r store" where
  "getUserMemory_try env now s uid cid =
     (if \<not> isValidCharacterId cid then (Inl (InvalidCharacterId cid), s)
      else
        let walletAddress = replace uid (ascii ''wallet_'') [];
            s1 = (if supabase_isAvailable env
                  then logged (SupabaseSelect walletAddress cid) s else s);
            data = (if supabase_isAvailable env
                    then select_memory_data env (user_memories s) walletAddress cid
                    else None)
        in (case data of
              Some mem \<Rightarrow> (ensureMemoryStructure now mem uid cid, s1)
            | None \<Rightarrow>
                let s2 = logged (ReadFile (memoryFile env uid cid)) s1
                in (case files s1 (memoryFile env uid cid) of
                      Some (Json mem) \<Rightarrow>
                        if s_characterId mem \<noteq> Some cid
                        then (createNewMemoryStructure now uid cid, s2)
                        else (ensureMemoryStructure now mem uid cid, s2)
                    | _ \<Rightarrow> (createNewMemoryStructure now uid cid, s2))))"

text \<open>The \<open>catch\<close> block: whatever was thrown, a new structure is created.\<close>

definition getUserMemory ::
  "'r env \<Rightarrow> date \<Rightarrow> 'r store \<Rightarrow> js_string \<Rightarrow> js_string \<Rightarrow> (error + memory) \<times> 'r store" where
  "getUserMemory env now s uid cid =
     (case getUserMemory_try env now s uid cid of
        (Inl e, s') \<Rightarrow> (createNewMemoryStructure now uid cid, s')
      | (Inr mem, s') \<Rightarrow> (Inr mem, s'))"

definition to_stored :: "memory \<Rightarrow> stored_memory" where
  "to_stored m =
     \<lparr>s_userId = Some (userId m), s_characterId = Some (characterId m),
      s_createdAt = Some (createdAt m), s_lastUpdated = Some (lastUpdated m),
      s_memoryVersion = Some (memoryVersion m), s_userProfile = Some (userProfile m),
      s_relationship = Some (relationship m), s_fullChatHistory = Some (fullChatHistory m),
      s_topicMemories = Some (topicMemories m), s_temporalContext = Some (temporalContext m),
      s_statistics = Some (statistics m), s_characterSpecific = Some (characterSpecific m)\<rparr>"

text \<open>The fallback of \<open>saveUserMemory\<close>: a failing \<open>writeFile\<close> is caught and logged.\<close>

definition writeMemoryFile :: "'r env \<Rightarrow> js_string \<Rightarrow> memory \<Rightarrow> 'r store \<Rightarrow> 'r store" where
  "writeMemoryFile env filePath m s =
     (let s1 = logged (WriteFile filePath) s
      in if fs_writable env then s1\<lparr>files := (files s1)(filePath \<mapsto> Json (to_stored m))\<rparr>
         else s1)"

definition saveUserMemory ::
  "'r env \<Rightarrow> date \<Rightarrow> 'r store \<Rightarrow> js_string \<Rightarrow> js_string \<Rightarrow> memory \<Rightarrow> (error + unit) \<times> 'r store" where
  "saveUserMemory env now s uid cid memoryData =
     (if \<not> isValidCharacterId cid then (Inl (CannotSaveMemory cid), s)
      else if characterId memoryData \<noteq> [] \<and> characterId memoryData \<noteq> cid
      then (Inl (MemoryCharacterIdMismatch (characterId memoryData) cid), s)
      else
        let m = memoryData\<lparr>userId := uid, characterId := cid,
                           lastUpdated := toISOString now, memoryVersion := ascii ''2.0''\<rparr>;
            filePath = memoryFile env uid cid
        in if includes_str filePath (ascii ''..'') \<or> \<not> prefix (MEMORIES_DIR env) filePath
           then (Inl (InvalidMemoryFilePath filePath), s)
           else if supabase_isAvailable env
           then
             (let walletAddress = replace uid (ascii ''wallet_'') [];
                  s1 = logged (SupabaseUpsert walletAddress cid) s
              in case upsert_user_memory env (user_memories s1) walletAddress cid (to_stored m) of
                   Some r \<Rightarrow> (Inr (), s1\<lparr>user_memories := r\<rparr>)
                 | None \<Rightarrow> (Inr (), writeMemoryFile env filePath m s1))
           else (Inr (), writeMemoryFile env filePath m s))"

section \<open>Memory manager: chat messages and relationship metrics\<close>

definition personalKeywords :: "js_string list" where
  "personalKeywords =
     [[0x6211, 0x7684, 0x540D, 0x5B57], [0x6211, 0x53EB], [0x6211, 0x662F],
      [0x6211, 0x7684, 0x5DE5, 0x4F5C], [0x6211, 0x7684, 0x5BB6],
      [0x6211, 0x7684, 0x7236, 0x6BCD], [0x6211, 0x559C, 0x6B22], [0x6211, 0x8BA8, 0x538C],
      [0x6211, 0x7684, 0x68A6, 0x60F3], [0x6211, 0x7684, 0x79D8, 0x5BC6],
      [0x6211, 0x5BB3, 0x6015], [0x6211, 0x5E0C, 0x671B], [0x6211, 0x60F3, 0x8981],
      [0x6211, 0x89C9, 0x5F97], [0x6211, 0x8BA4, 0x4E3A]]"

definition containsPersonalInfo :: "js_string \<Rightarrow> bool" where
  "containsPersonalInfo msg \<longleftrightarrow>
     list_ex (\<lambda>keyword. includes_str (toLowerCase msg) keyword) personalKeywords"

text \<open>
  \<open>updateRelationshipMetrics\<close> is a sequence of five updates of \<open>memory.relationship\<close>,
  one definition each, in the order of the source.
\<close>

definition updateLevel :: "nat \<Rightarrow> relationship_state \<Rightarrow> relationship_state" where
  "updateLevel messages r = r\<lparr>level := min 100 (messages div 5 + 1)\<rparr>"

definition updateTrust :: "nat \<Rightarrow> relationship_state \<Rightarrow> relationship_state" where
  "updateTrust len r =
     (let isLongMessage = (len > 50);
          r' = (if isLongMessage then r\<lparr>trust := min 100 (trust r + 0.5)\<rparr> else r)
      in r'\<lparr>trust := min 100 (trust r' + 0.1)\<rparr>)"

definition updateIntimacy :: "js_string \<Rightarrow> relationship_state \<Rightarrow> relationship_state" where
  "updateIntimacy txt r =
     (if containsPersonalInfo txt then r\<lparr>intimacy := min 100 (intimacy r + 1)\<rparr> else r)"

definition updateAffection :: "js_string option \<Rightarrow> relationship_state \<Rightarrow> relationship_state" where
  "updateAffection em r =
     (if em = Some (ascii ''happy'') \<or> em = Some (ascii ''excited'')
      then r\<lparr>affection := min 100 (affection r + 0.3)\<rparr> else r)"

definition updateCommunicationStyle :: "relationship_state \<Rightarrow> relationship_state" where
  "updateCommunicationStyle r =
     (if intimacy r > 30 \<and> communicationStyle r = formal
      then r\<lparr>communicationStyle := casual\<rparr>
      else if intimacy r > 70 \<and> communicationStyle r = casual
      then r\<lparr>communicationStyle := intimate\<rparr>
      else r)"

definition updateRelationshipMetrics :: "memory \<Rightarrow> message \<Rightarrow> memory" where
  "updateRelationshipMetrics mem msg =
     mem\<lparr>relationship :=
           updateCommunicationStyle
             (updateAffection (emotion msg)
               (updateIntimacy (content msg)
                 (updateTrust (length (content msg))
                   (updateLevel (totalMessages (statistics mem)) (relationship mem)))))\<rparr>"

text \<open>\<open>xs.slice(-n)\<close>: the last \<open>n\<close> elements.\<close>

definition slice_last :: "nat \<Rightarrow> 'a list \<Rightarrow> 'a list" where
  "slice_last n xs = drop (length xs - n) xs"

text \<open>\<open>o[k] = (o[k] || 0) + 1\<close> on a dictionary of counters.\<close>

fun increment :: "js_string \<Rightarrow> (js_string \<times> nat) list \<Rightarrow> (js_string \<times> nat) list" where
  "increment k [] = [(k, 1)]"
| "increment k ((k', n) # kvs) =
     (if k' = k then (k', n + 1) # kvs else (k', n) # increment k kvs)"

text \<open>
  The part of \<open>addChatMessage\<close> between the load and the save is a sequence of
  mutations of the loaded memory: the history, the statistics, the temporal context,
  the relationship.
\<close>

definition historyEntry :: "message \<Rightarrow> chat_entry" where
  "historyEntry msg =
     message.extend msg
       (chat_entry.fields (length (content msg)) (splitWhiteSpaceLength (content msg)))"

definition pushChatHistory :: "message \<Rightarrow> chat_entry list \<Rightarrow> chat_entry list" where
  "pushChatHistory msg history =
     (let pushed = history @ [historyEntry msg]
      in if length pushed > 200 then slice_last 200 pushed else pushed)"

definition updateStatistics :: "message \<Rightarrow> statistics_state \<Rightarrow> statistics_state" where
  "updateStatistics msg st =
     (let messages = totalMessages st + 1;
          characters = totalCharacters st + length (content msg)
      in st\<lparr>totalMessages := messages, totalCharacters := characters,
             averageMessageLength := real characters / real messages\<rparr>)"

definition updateTemporalContext :: "date \<Rightarrow> temporal_context \<Rightarrow> temporal_context" where
  "updateTemporalContext now tc =
     (let hour = getHours now;
          timeSlot = decimal (hour div 4 * 4) @ ascii ''-'' @ decimal (hour div 4 * 4 + 4);
          dateKey = takeWhile (\<lambda>u. u \<noteq> 0x54) (toISOString now)
      in tc\<lparr>lastChatTime := Some (toISOString now),
             chatFrequency := chatFrequency tc + 1,
             preferredChatTimes := preferredChatTimes tc @ [timeSlot],
             dailyInteractions := increment dateKey (dailyInteractions tc)\<rparr>)"

definition recordChatMessage :: "date \<Rightarrow> memory \<Rightarrow> message \<Rightarrow> memory" where
  "recordChatMessage now mem msg =
     updateRelationshipMetrics
       (mem\<lparr>fullChatHistory := pushChatHistory msg (fullChatHistory mem),
            statistics := updateStatistics msg (statistics mem),
            temporalContext := updateTemporalContext now (temporalContext mem)\<rparr>)
       msg"

definition addChatMessage ::
  "'r env \<Rightarrow> date \<Rightarrow> 'r store \<Rightarrow> js_string \<Rightarrow> js_string \<Rightarrow> message \<Rightarrow> (error + memory) \<times> 'r store" where
  "addChatMessage env now s uid cid msg =
     (case getUserMemory env now s uid cid of
        (Inl e, s1) \<Rightarrow> (Inl e, s1)
      | (Inr mem, s1) \<Rightarrow>
          let mem' = recordChatMessage now mem msg
          in (case saveUserMemory env now s1 uid cid mem' of
                (Inl e, s2) \<Rightarrow> (Inl e, s2)
              | (Inr u, s2) \<Rightarrow> (Inr mem', s2)))"


section \<open>Episodic memory store\<close>

text \<open>
  The table \<open>episodic_memories\<close> and the function \<open>match_episodic_memories\<close>. The
  operator \<open><=>\<close> (cosine distance) belongs to the \<open>vector\<close> extension, not to the
  repository: it is the parameter \<open>distance\<close>, on an arbitrary type \<open>'v\<close> of vectors, and its
  result is taken to be a number. A NULL embedding makes the \<open>WHERE\<close> condition NULL,
  and the row is not selected. Rows that tie in the \<open>ORDER BY\<close> keep their table order
  here (SQL leaves their order open). A negative \<open>LIMIT\<close> is an error of the query.
  The query is modelled as an exact scan; the approximate index that the schema declares
  on the embeddings can only leave rows out of the result.
\<close>

record 'v episodic_memory =
  em_id :: uuid
  em_user_id :: string
  em_npc_id :: string
  em_text :: string
  em_embedding :: "'v option"
  em_created_at :: timestamptz

record episodic_match =
  match_id :: uuid
  match_text :: string
  match_created_at :: timestamptz
  match_similarity :: real

datatype query_error = LimitMustNotBeNegative

definition where_clause ::
  "('v \<Rightarrow> 'v \<Rightarrow> real) \<Rightarrow> string \<Rightarrow> string \<Rightarrow> 'v \<Rightarrow> real \<Rightarrow> 'v episodic_memory \<Rightarrow>
   (real \<times> 'v episodic_memory) option" where
  "where_clause distance p_user_id p_npc_id p_query_embedding p_similarity_threshold e =
     (case em_embedding e of
        None \<Rightarrow> None
      | Some v \<Rightarrow>
          if em_user_id e = p_user_id \<and> em_npc_id e = p_npc_id \<and>
             1 - distance v p_query_embedding > p_similarity_threshold
          then Some (distance v p_query_embedding, e) else None)"

definition select_columns :: "real \<times> 'v episodic_memory \<Rightarrow> episodic_match" where
  "select_columns de =
     \<lparr>match_id = em_id (snd de), match_text = em_text (snd de),
      match_created_at = em_created_at (snd de), match_similarity = 1 - fst de\<rparr>"

definition match_episodic_memories ::
  "('v \<Rightarrow> 'v \<Rightarrow> real) \<Rightarrow> 'v episodic_memory list \<Rightarrow> string \<Rightarrow> string \<Rightarrow> 'v \<Rightarrow> int \<Rightarrow> real \<Rightarrow>
   query_error + episodic_match list" where
  "match_episodic_memories distance episodic_memories p_user_id p_npc_id p_query_embedding
       p_match_count p_similarity_threshold =
     (if p_match_count < 0 then Inl LimitMustNotBeNegative
      else Inr (map select_columns
                 (take (nat p_match_count)
                   (sort_key fst
                     (List.map_filter
                        (where_clause distance p_user_id p_npc_id p_query_embedding
                           p_similarity_threshold)
                        episodic_memories)))))"

text \<open>
  Cosine distance on vectors of reals, as the extension documents it for vectors of
  equal dimension and non-zero norm; used below to run the query on concrete rows.
\<close>

definition dot :: "real list \<Rightarrow> real list \<Rightarrow> real" where
  "dot a b = sum_list (map2 (*) a b)"

definition cosine_distance :: "real list \<Rightarrow> real list \<Rightarrow> real" where
  "cosine_distance a b = 1 - dot a b / (sqrt (dot a a) * sqrt (dot b b))"

section \<open>Rolling summary\<close>

text \<open>
  \<open>MemorySystem.updateRollingSummary\<close>. The table \<open>rolling_summaries\<close> has the primary
  key \<open>(user_id, npc_id)\<close>: it is a map from that pair to the other columns, and the
  \<open>upsert\<close> request, which carries the key, replaces the row. The chat completion is a
  function of the environment from the prompt to its outcome: the call fails, or the
  message content is there (a string or \<open>null\<close>). The store may answer the \<open>upsert\<close>
  with an error for reasons of its own (\<open>upsert_error\<close>); a \<open>null\<close> summary violates
  \<open>NOT NULL\<close>. Every failure is thrown to the \<open>catch\<close> block, which only logs.
\<close>

record conversation_turn =
  turn_role :: js_string
  turn_content :: js_string

record rolling_summary =
  rs_summary :: js_string
  rs_message_count :: nat
  rs_updated_at :: js_string

datatype completion = CompletionFailed | CompletionContent "js_string option"

record memory_system_env =
  chat_completion :: "js_string \<Rightarrow> completion"
  upsert_error :: bool

record memory_system =
  initialized :: bool
  rolling_summaries :: "js_string \<times> js_string \<rightharpoonup> rolling_summary"

fun join :: "js_string \<Rightarrow> js_string list \<Rightarrow> js_string" where
  "join sep [] = []"
| "join sep [x] = x"
| "join sep (x # y # xs) = x @ sep @ join sep (y # xs)"

definition summaryPrompt_head :: js_string where
  "summaryPrompt_head =
     [0x8BF7, 0x5C06, 0x4EE5, 0x4E0B, 0x5BF9, 0x8BDD, 0x603B, 0x7ED3, 0x4E3A, 0x7B80, 0x6D01,
      0x7684, 0x8981, 0x70B9, 0xFF0C, 0x4FDD, 0x7559, 0x91CD, 0x8981, 0x4FE1, 0x606F, 0x548C,
      0x60C5, 0x611F, 0x8272, 0x5F69, 0xFF1A, 0x000A]"

definition summaryPrompt_tail :: js_string where
  "summaryPrompt_tail =
     [0x000A, 0x000A, 0x8981, 0x6C42, 0xFF1A, 0x000A, 0x002D, 0x0020, 0x0033, 0x002D, 0x0035,
      0x4E2A, 0x8981, 0x70B9, 0xFF0C, 0x6BCF, 0x4E2A, 0x8981, 0x70B9, 0x0031, 0x884C, 0x000A,
      0x002D, 0x0020, 0x4FDD, 0x7559, 0x91CD, 0x8981, 0x7684, 0x4E8B, 0x5B9E, 0x4FE1, 0x606F,
      0x000A, 0x002D, 0x0020, 0x8BB0, 0x5F55, 0x60C5, 0x611F, 0x53D8, 0x5316, 0x548C, 0x5173,
      0x7CFB, 0x53D1, 0x5C55, 0x000A, 0x002D, 0x0020, 0x4F7F, 0x7528, 0x7B2C, 0x4E09, 0x4EBA,
      0x79F0, 0x63CF, 0x8FF0]"

definition summaryPrompt :: "conversation_turn list \<Rightarrow> js_string" where
  "summaryPrompt newMessages =
     (let conversationText =
            join [0x0A] (map (\<lambda>msg. turn_role msg @ ascii '': '' @ turn_content msg) newMessages)
      in summaryPrompt_head @ conversationText @ summaryPrompt_tail)"

definition updateRollingSummary ::
  "memory_system_env \<Rightarrow> date \<Rightarrow> memory_system \<Rightarrow> js_string \<Rightarrow> js_string \<Rightarrow>
   conversation_turn list \<Rightarrow> memory_system" where
  "updateRollingSummary env now ms uid npcId newMessages =
     (if \<not> initialized ms \<or> newMessages = [] then ms
      else (case chat_completion env (summaryPrompt newMessages) of
              CompletionFailed \<Rightarrow> ms
            | CompletionContent None \<Rightarrow> ms
            | CompletionContent (Some newSummary) \<Rightarrow>
                if upsert_error env then ms
                else ms\<lparr>rolling_summaries :=
                          (rolling_summaries ms)((uid, npcId) \<mapsto>
                             \<lparr>rs_summary = newSummary,
                              rs_message_count = length newMessages,
                              rs_updated_at = toISOString now\<rparr>)\<rparr>))"


section \<open>Context assembler\<close>

text \<open>
  \<open>MemorySystem.buildContextForAI\<close>. A long-term row carries one of the five categories
  that the schema names for the column \<open>category\<close>; \<open>category_string\<close> is the text of
  the column. A list of the snapshot that is \<open>undefined\<close> or \<open>null\<close> is \<open>None\<close>.
\<close>

datatype category = Preference | Fact | Relationship | Goal | Trigger

fun category_string :: "category \<Rightarrow> js_string" where
  "category_string Preference = ascii ''preference''"
| "category_string Fact = ascii ''fact''"
| "category_string Relationship = ascii ''relationship''"
| "category_string Goal = ascii ''goal''"
| "category_string Trigger = ascii ''trigger''"

record long_term_fact =
  fact_category :: category
  fact_key :: "js_string option"
  fact_value :: js_string

record episodic_snippet =
  snippet_text :: js_string
  snippet_similarity :: real

record memory_context =
  episodic :: "episodic_snippet list option"
  longTerm :: "long_term_fact list option"
  summary :: "js_string option"

definition header_persona :: js_string where
  "header_persona = [0x005B, 0x89D2, 0x8272, 0x8BBE, 0x5B9A, 0x005D, 0x000A]"

definition header_summary :: js_string where
  "header_summary = [0x005B, 0x5BF9, 0x8BDD, 0x5386, 0x53F2, 0x6458, 0x8981, 0x005D, 0x000A]"

definition header_longTerm :: js_string where
  "header_longTerm = [0x005B, 0x7528, 0x6237, 0x8D44, 0x6599, 0x8BB0, 0x5FC6, 0x005D, 0x000A]"

definition header_episodic :: js_string where
  "header_episodic = [0x005B, 0x76F8, 0x5173, 0x56DE, 0x5FC6, 0x005D, 0x000A]"

definition default_key :: js_string where
  "default_key = [0x4FE1, 0x606F]"

text \<open>The table of labels; a category without an entry is shown by its own text.\<close>

definition categoryLabels :: "(category \<times> js_string) list" where
  "categoryLabels =
     [(Preference, [0x504F, 0x597D]), (Fact, [0x4E8B, 0x5B9E]),
      (Relationship, [0x5173, 0x7CFB]), (Goal, [0x76EE, 0x6807])]"

definition categoryName :: "category \<Rightarrow> js_string" where
  "categoryName c = (case map_of categoryLabels c of Some l \<Rightarrow> l | None \<Rightarrow> category_string c)"

text \<open>\<open>`${memory.key || '...'}: ${memory.value}`\<close>: a missing or empty key is falsy.\<close>

definition fact_item :: "long_term_fact \<Rightarrow> js_string" where
  "fact_item m =
     (case fact_key m of None \<Rightarrow> default_key | Some k \<Rightarrow> if k = [] then default_key else k)
     @ ascii '': '' @ fact_value m"

text \<open>
  The accumulator of the \<open>reduce\<close>: an object whose keys are categories, in the order
  of their insertion.
\<close>

fun push_item ::
  "category \<Rightarrow> js_string \<Rightarrow> (category \<times> js_string list) list \<Rightarrow> (category \<times> js_string list) list" where
  "push_item c item [] = [(c, [item])]"
| "push_item c item ((c', items) # acc) =
     (if c' = c then (c', items @ [item]) # acc else (c', items) # push_item c item acc)"

definition memoryByCategory :: "long_term_fact list \<Rightarrow> (category \<times> js_string list) list" where
  "memoryByCategory facts =
     foldl (\<lambda>acc m. push_item (fact_category m) (fact_item m) acc) [] facts"

definition category_line :: "category \<times> js_string list \<Rightarrow> js_string" where
  "category_line entry =
     ascii ''- '' @ categoryName (fst entry) @ ascii '': '' @ join (ascii '', '') (snd entry)
     @ [0x0A]"

definition snippet_line :: "episodic_snippet \<Rightarrow> js_string" where
  "snippet_line m = ascii ''- '' @ snippet_text m @ [0x0A]"

definition buildContextForAI :: "memory_context \<Rightarrow> js_string \<Rightarrow> js_string" where
  "buildContextForAI memoryContext npcPersona =
     (let context0 = header_persona @ npcPersona @ [0x0A, 0x0A];
          context1 =
            (case summary memoryContext of
               None \<Rightarrow> context0
             | Some sm \<Rightarrow>
                 if sm \<noteq> [] then context0 @ header_summary @ sm @ [0x0A, 0x0A] else context0);
          context2 =
            (case longTerm memoryContext of
               None \<Rightarrow> context1
             | Some facts \<Rightarrow>
                 if facts \<noteq> []
                 then context1 @ header_longTerm @
                      concat (map category_line (memoryByCategory facts)) @ [0x0A]
                 else context1);
          context3 =
            (case episodic memoryContext of
               None \<Rightarrow> context2
             | Some eps \<Rightarrow>
                 if eps \<noteq> []
                 then context2 @ header_episodic @
                      concat (map snippet_line
                        (take 4 (filter (\<lambda>m. snippet_similarity m > 0.7) eps))) @ [0x0A]
                 else context2)
      in context3)"

subsection \<open>The assembled context in the words of the specification\<close>

text \<open>
  Four sections in a fixed order, each empty when its data is missing. The facts are
  grouped by category, the categories in the order of their first fact; the episodic
  section lists the four most similar of the snippets above 0.7.
\<close>

definition spec_persona_section :: "js_string \<Rightarrow> js_string" where
  "spec_persona_section persona = header_persona @ persona @ [0x0A, 0x0A]"

definition spec_summary_section :: "js_string option \<Rightarrow> js_string" where
  "spec_summary_section sm =
     (case sm of
        None \<Rightarrow> []
      | Some t \<Rightarrow> if t = [] then [] else header_summary @ t @ [0x0A, 0x0A])"

definition first_occurrences :: "'a list \<Rightarrow> 'a list" where
  "first_occurrences xs = rev (remdups (rev xs))"

definition spec_groups :: "long_term_fact list \<Rightarrow> (category \<times> js_string list) list" where
  "spec_groups facts =
     map (\<lambda>c. (c, map fact_item (filter (\<lambda>m. fact_category m = c) facts)))
       (first_occurrences (map fact_category facts))"

definition spec_long_term_section :: "long_term_fact list option \<Rightarrow> js_string" where
  "spec_long_term_section facts =
     (case facts of
        None \<Rightarrow> []
      | Some fs \<Rightarrow>
          if fs = [] then []
          else header_longTerm @ concat (map category_line (spec_groups fs)) @ [0x0A])"

definition most_similar :: "nat \<Rightarrow> episodic_snippet list \<Rightarrow> episodic_snippet list" where
  "most_similar n eps = take n (sort_key (\<lambda>m. - snippet_similarity m) eps)"

definition spec_episodic_section :: "episodic_snippet list option \<Rightarrow> js_string" where
  "spec_episodic_section eps =
     (case eps of
        None \<Rightarrow> []
      | Some es \<Rightarrow>
          if es = [] then []
          else header_episodic @
               concat (map snippet_line
                 (most_similar 4 (filter (\<lambda>m. snippet_similarity m > 0.7) es))) @ [0x0A])"

definition spec_buildContext :: "memory_context \<Rightarrow> js_string \<Rightarrow> js_string" where
  "spec_buildContext memoryContext persona =
     spec_persona_section persona @ spec_summary_section (summary memoryContext) @
     spec_long_term_section (longTerm memoryContext) @
     spec_episodic_section (episodic memoryContext)"

text \<open>The episodic section as the source lists it: the first four in snapshot order.\<close>

definition listed_episodic_section :: "episodic_snippet list option \<Rightarrow> js_string" where
  "listed_episodic_section eps =
     (case eps of
        None \<Rightarrow> []
      | Some es \<Rightarrow>
          if es = [] then []
          else header_episodic @
               concat (map snippet_line
                 (take 4 (filter (\<lambda>m. snippet_similarity m > 0.7) es))) @ [0x0A])"


section \<open>Observations on the state, and concrete data\<close>

text \<open>The confidence stored under a key, and its trace over consecutive upserts.\<close>

definition stored_confidence ::
  "string \<Rightarrow> string \<Rightarrow> string \<Rightarrow> string \<Rightarrow> long_term_memory list \<Rightarrow> real option" where
  "stored_confidence u n c k tbl =
     map_option ltm_confidence (find (conflict_target u n c (Some k)) tbl)"

fun confidence_trace ::
  "string \<Rightarrow> string \<Rightarrow> string \<Rightarrow> string \<Rightarrow> string \<Rightarrow> real \<Rightarrow> (timestamptz \<times> uuid) list \<Rightarrow>
   long_term_memory list \<Rightarrow> real option list" where
  "confidence_trace u n c k v p [] tbl = []"
| "confidence_trace u n c k v p (call # calls) tbl =
     stored_confidence u n c k
       (snd (upsert_long_term_memory (fst call) (snd call) u n c (Some k) v p tbl)) #
     confidence_trace u n c k v p calls
       (snd (upsert_long_term_memory (fst call) (snd call) u n c (Some k) v p tbl))"

text \<open>
  The behaviour that the specification expects of three repeated upserts: the
  confidence never decreases, is raised toward 1.0, and never exceeds it.
\<close>

fun spec_raised_toward_one :: "real option list \<Rightarrow> bool" where
  "spec_raised_toward_one [Some c1, Some c2, Some c3] \<longleftrightarrow>
     c1 \<le> c2 \<and> c2 \<le> c3 \<and> c1 < c3 \<and> c3 \<le> 1"
| "spec_raised_toward_one cs \<longleftrightarrow> False"

text \<open>The position of a style on the path formal, casual, intimate.\<close>

fun style_rank :: "communication_style \<Rightarrow> nat" where
  "style_rank formal = 0"
| "style_rank casual = 1"
| "style_rank intimate = 2"

definition row_unkeyed :: long_term_memory where
  "row_unkeyed =
     \<lparr>ltm_id = 1, ltm_user_id = ''u1'', ltm_npc_id = ''alice'', ltm_category = ''fact'',
      ltm_key = None, ltm_value = ''has a dog'', ltm_confidence = 0.8,
      ltm_last_seen_at = 10, ltm_created_at = 10\<rparr>"

definition row_keyed :: long_term_memory where
  "row_keyed =
     \<lparr>ltm_id = 1, ltm_user_id = ''u1'', ltm_npc_id = ''alice'', ltm_category = ''fact'',
      ltm_key = Some ''pet'', ltm_value = ''has a dog'', ltm_confidence = 0.8,
      ltm_last_seen_at = 10, ltm_created_at = 10\<rparr>"

definition local_env :: "unit env" where
  "local_env =
     \<lparr>supabase_isAvailable = False,
      select_memory_data = (\<lambda>r u c. None),
      upsert_user_memory = (\<lambda>r u c m. None),
      MEMORIES_DIR = ascii ''/app/data/memories'',
      path_join = (\<lambda>a b. a @ ascii ''/'' @ b),
      fs_writable = True\<rparr>"


definition noon :: date where
  "noon = \<lparr>toISOString = ascii ''2024-05-01T12:30:00.000Z'', getHours = 12\<rparr>"

definition hello :: message where
  "hello = \<lparr>content = ascii ''hello there'', emotion = Some (ascii ''happy'')\<rparr>"

definition devoted :: memory where
  "devoted =
     (projr (createNewMemoryStructure noon (ascii ''u1'') (ascii ''alice'')))
       \<lparr>relationship :=
          (relationship (projr (createNewMemoryStructure noon (ascii ''u1'') (ascii ''alice''))))
            \<lparr>intimacy := 75\<rparr>\<rparr>"

definition stored_record :: "js_string \<Rightarrow> chat_entry list \<Rightarrow> nat \<Rightarrow> stored_memory" where
  "stored_record cid history messages =
     \<lparr>s_userId = Some (ascii ''u1''), s_characterId = Some cid, s_createdAt = None,
      s_lastUpdated = None, s_memoryVersion = None, s_userProfile = None,
      s_relationship = None, s_fullChatHistory = Some history, s_topicMemories = None,
      s_temporalContext = None,
      s_statistics =
        Some \<lparr>totalMessages = messages, totalCharacters = 0, averageMessageLength = 0,
              emotionalTone = \<lparr>positive = 0, negative = 0, neutral = 0\<rparr>,
              topicsDiscussed = [], memoryImportance = []\<rparr>,
      s_characterSpecific = None\<rparr>"

definition empty_store :: "unit store" where
  "empty_store = \<lparr>user_memories = (), files = Map.empty, io_log = []\<rparr>"

definition file_store :: "stored_memory \<Rightarrow> unit store" where
  "file_store mem =
     \<lparr>user_memories = (),
      files = [ascii ''/app/data/memories/u1_alice.json'' \<mapsto> Json mem],
      io_log = []\<rparr>"


definition example_memories :: "real list episodic_memory list" where
  "example_memories =
     [\<lparr>em_id = 1, em_user_id = ''u1'', em_npc_id = ''alice'', em_text = ''walked the dog'',
       em_embedding = Some [3, 4], em_created_at = 1\<rparr>,
      \<lparr>em_id = 2, em_user_id = ''u1'', em_npc_id = ''alice'', em_text = ''missed the bus'',
       em_embedding = Some [0, 1], em_created_at = 2\<rparr>,
      \<lparr>em_id = 3, em_user_id = ''u2'', em_npc_id = ''alice'', em_text = ''other user'',
       em_embedding = Some [1, 0], em_created_at = 3\<rparr>,
      \<lparr>em_id = 4, em_user_id = ''u1'', em_npc_id = ''fliza'', em_text = ''other character'',
       em_embedding = Some [1, 0], em_created_at = 4\<rparr>,
      \<lparr>em_id = 5, em_user_id = ''u1'', em_npc_id = ''alice'', em_text = ''passed the exam'',
       em_embedding = Some [1, 0], em_created_at = 5\<rparr>,
      \<lparr>em_id = 6, em_user_id = ''u1'', em_npc_id = ''alice'', em_text = ''not embedded'',
       em_embedding = None, em_created_at = 6\<rparr>,
      \<lparr>em_id = 7, em_user_id = ''u1'', em_npc_id = ''alice'', em_text = ''bought a guitar'',
       em_embedding = Some [4, 3], em_created_at = 7\<rparr>]"

definition ten_turns :: "conversation_turn list" where
  "ten_turns = replicate 10 \<lparr>turn_role = ascii ''user'', turn_content = ascii ''hi''\<rparr>"

definition summarizing_env :: memory_system_env where
  "summarizing_env =
     \<lparr>chat_completion = (\<lambda>prompt. CompletionContent (Some (ascii ''- new summary''))),
      upsert_error = False\<rparr>"

definition failing_env :: memory_system_env where
  "failing_env = \<lparr>chat_completion = (\<lambda>prompt. CompletionFailed), upsert_error = False\<rparr>"

definition summarized_system :: memory_system where
  "summarized_system =
     \<lparr>initialized = True,
      rolling_summaries =
        [(ascii ''u1'', ascii ''alice'') \<mapsto>
           \<lparr>rs_summary = ascii ''- old summary'', rs_message_count = 7,
            rs_updated_at = ascii ''2024-04-30T09:00:00.000Z''\<rparr>]\<rparr>"

definition snippet :: "string \<Rightarrow> real \<Rightarrow> episodic_snippet" where
  "snippet t sim = \<lparr>snippet_text = ascii t, snippet_similarity = sim\<rparr>"

definition ascending_snapshot :: memory_context where
  "ascending_snapshot =
     \<lparr>episodic = Some [snippet ''s1'' 0.71, snippet ''s2'' 0.72, snippet ''s3'' 0.73,
                       snippet ''s4'' 0.74, snippet ''s5'' 0.99],
      longTerm = None, summary = None\<rparr>"

definition descending_snapshot :: memory_context where
  "descending_snapshot =
     \<lparr>episodic = Some [snippet ''s5'' 0.99, snippet ''s4'' 0.74, snippet ''s3'' 0.73,
                       snippet ''s2'' 0.72, snippet ''s1'' 0.71, snippet ''s0'' 0.5],
      longTerm =
        Some [\<lparr>fact_category = Fact, fact_key = Some (ascii ''name''), fact_value = ascii ''Ming''\<rparr>,
              \<lparr>fact_category = Trigger, fact_key = None, fact_value = ascii ''exams''\<rparr>,
              \<lparr>fact_category = Fact, fact_key = Some [], fact_value = ascii ''guitar''\<rparr>],
      summary = Some (ascii ''- met today'')\<rparr>"

section \<open>Properties of the long-term fact store\<close>

lemma on_conflict_no_target:
  "\<forall>x\<in>set tbl. \<not> c x \<Longrightarrow> on_conflict_do_update c f tbl = None"
  by (induction tbl) auto

lemma on_conflict_first_target:
  "\<forall>x\<in>set pre. \<not> c x \<Longrightarrow> c r \<Longrightarrow>
   on_conflict_do_update c f (pre @ r # post) = Some (ltm_id r, pre @ f r # post)"
  by (induction pre) auto

lemma upsert_no_row:
  "\<forall>x\<in>set tbl. \<not> conflict_target u n c k x \<Longrightarrow>
   upsert_long_term_memory now fresh u n c k v p tbl =
     (fresh, tbl @ [\<lparr>ltm_id = fresh, ltm_user_id = u, ltm_npc_id = n,
                   ltm_category = c, ltm_key = k, ltm_value = v,
                   ltm_confidence = p, ltm_last_seen_at = now,
                   ltm_created_at = now\<rparr>])"
  by (simp add: upsert_long_term_memory_def on_conflict_no_target)

lemma upsert_existing_row:
  "\<forall>x\<in>set pre. \<not> conflict_target u n c k x \<Longrightarrow> conflict_target u n c k r \<Longrightarrow>
   upsert_long_term_memory now fresh u n c k v p (pre @ r # post) =
     (ltm_id r, pre @ do_update now v p r # post)"
  by (simp add: upsert_long_term_memory_def on_conflict_first_target)

lemma clamp_min: "0 \<le> x \<Longrightarrow> clamp x 0 1 = min 1 x"
  by (auto simp: clamp_def)

text \<open>
  Claim C1, as the code has it. An upsert whose key is not NULL, on a table where \<open>r\<close> is
  the row with the same user, character, category and key: the row keeps its place and its
  id, its value becomes the incoming value, its confidence becomes
  \<open>min 1 (old * 0.7 + new * 0.3)\<close>, its \<open>last_seen_at\<close> becomes the time of the upsert, and
  no other row changes. The confidence is the clamp of the specification whenever the
  weighted sum is not negative. An upsert that meets no such row (in particular every
  upsert with a NULL key) appends a new row with the incoming confidence.
\<close>

theorem upsert_merge_rule:
  "(ltm_user_id r = u \<and> ltm_npc_id r = n \<and> ltm_category r = c \<and> ltm_key r = Some k \<and>
    (\<forall>x\<in>set pre. \<not> conflict_target u n c (Some k) x) \<longrightarrow>
      upsert_long_term_memory now fresh u n c (Some k) v p (pre @ r # post) =
        (ltm_id r,
         pre @ r\<lparr>ltm_value := v,
                 ltm_confidence := min 1 (ltm_confidence r * 0.7 + p * 0.3),
                 ltm_last_seen_at := now\<rparr> # post) \<and>
      (0 \<le> ltm_confidence r * 0.7 + p * 0.3 \<longrightarrow>
         min 1 (ltm_confidence r * 0.7 + p * 0.3) = spec_merged_confidence (ltm_confidence r) p)) \<and>
   ((\<forall>x\<in>set tbl. \<not> conflict_target u n c key x) \<longrightarrow>
      upsert_long_term_memory now fresh u n c key v p tbl =
        (fresh, tbl @ [\<lparr>ltm_id = fresh, ltm_user_id = u, ltm_npc_id = n,
                   ltm_category = c, ltm_key = key, ltm_value = v,
                   ltm_confidence = p, ltm_last_seen_at = now,
                   ltm_created_at = now\<rparr>]))"
proof (intro conjI impI)
  assume a: "ltm_user_id r = u \<and> ltm_npc_id r = n \<and> ltm_category r = c \<and> ltm_key r = Some k \<and>
    (\<forall>x\<in>set pre. \<not> conflict_target u n c (Some k) x)"
  then have "conflict_target u n c (Some k) r"
    by (simp add: conflict_target_def)
  with a show "upsert_long_term_memory now fresh u n c (Some k) v p (pre @ r # post) =
        (ltm_id r,
         pre @ r\<lparr>ltm_value := v,
                 ltm_confidence := min 1 (ltm_confidence r * 0.7 + p * 0.3),
                 ltm_last_seen_at := now\<rparr> # post)"
    by (simp add: upsert_existing_row do_update_def)
next
  assume "0 \<le> ltm_confidence r * 0.7 + p * 0.3"
  then show "min 1 (ltm_confidence r * 0.7 + p * 0.3) = spec_merged_confidence (ltm_confidence r) p"
    by (simp add: spec_merged_confidence_def clamp_min)
next
  assume "\<forall>x\<in>set tbl. \<not> conflict_target u n c key x"
  then show "upsert_long_term_memory now fresh u n c key v p tbl =
        (fresh, tbl @ [\<lparr>ltm_id = fresh, ltm_user_id = u, ltm_npc_id = n,
                   ltm_category = c, ltm_key = key, ltm_value = v,
                   ltm_confidence = p, ltm_last_seen_at = now,
                   ltm_created_at = now\<rparr>])"
    by (rule upsert_no_row)
qed

theorem upsert_merge_rule_witness:
  "upsert_long_term_memory 20 2 ''u1'' ''alice'' ''fact'' (Some ''pet'') ''has a cat'' 0.9 [row_keyed] =
     (1, [row_keyed\<lparr>ltm_value := ''has a cat'', ltm_confidence := 0.83, ltm_last_seen_at := 20\<rparr>]) \<and>
   spec_merged_confidence 0.8 0.9 = 0.83 \<and>
   upsert_long_term_memory 20 2 ''u1'' ''alice'' ''fact'' (Some ''pet'') ''has a cat'' 0.9 [] =
     (2, [\<lparr>ltm_id = 2, ltm_user_id = ''u1'', ltm_npc_id = ''alice'', ltm_category = ''fact'',
           ltm_key = Some ''pet'', ltm_value = ''has a cat'', ltm_confidence = 0.9,
           ltm_last_seen_at = 20, ltm_created_at = 20\<rparr>])"
  using upsert_merge_rule [where r = row_keyed and u = "''u1''" and n = "''alice''"
      and c = "''fact''" and k = "''pet''" and pre = "[]" and post = "[]" and now = 20
      and fresh = 2 and v = "''has a cat''" and p = "0.9" and tbl = "[]"
      and key = "Some ''pet''"]
  by (simp add: row_keyed_def)

text \<open>
  Claim C1 as stated fails twice. A row whose key is NULL is not merged by an upsert that
  carries the same user, character and category and a NULL key: it keeps its value and its
  confidence, and a second row is stored. And no lower bound is applied: a weighted sum
  below zero is stored as it is, where the clamp of the specification gives 0.
\<close>

theorem upsert_merge_counterexample:
  "upsert_long_term_memory 20 2 ''u1'' ''alice'' ''fact'' None ''has a cat'' 0.9 [row_unkeyed] =
     (2, [row_unkeyed,
          \<lparr>ltm_id = 2, ltm_user_id = ''u1'', ltm_npc_id = ''alice'', ltm_category = ''fact'',
           ltm_key = None, ltm_value = ''has a cat'', ltm_confidence = 0.9,
           ltm_last_seen_at = 20, ltm_created_at = 20\<rparr>]) \<and>
   ltm_user_id row_unkeyed = ''u1'' \<and> ltm_npc_id row_unkeyed = ''alice'' \<and>
   ltm_category row_unkeyed = ''fact'' \<and> ltm_key row_unkeyed = None \<and>
   ltm_confidence row_unkeyed \<noteq> spec_merged_confidence (ltm_confidence row_unkeyed) 0.9 \<and>
   upsert_long_term_memory 20 2 ''u1'' ''alice'' ''fact'' (Some ''pet'') ''has a cat'' (- 5) [row_keyed] =
     (1, [row_keyed\<lparr>ltm_value := ''has a cat'', ltm_confidence := - 0.94,
                    ltm_last_seen_at := 20\<rparr>]) \<and>
   spec_merged_confidence (ltm_confidence row_keyed) (- 5) \<noteq> - 0.94"
  by (simp add: upsert_long_term_memory_def conflict_target_def row_unkeyed_def row_keyed_def
      do_update_def spec_merged_confidence_def clamp_def)

lemma stored_confidence_absent:
  "\<forall>x\<in>set tbl. \<not> conflict_target u n c (Some k) x \<Longrightarrow> stored_confidence u n c k tbl = None"
  by (induction tbl) (auto simp: stored_confidence_def)

lemma on_conflict_stored_confidence:
  "on_conflict_do_update (conflict_target u n c (Some k)) (do_update now v p) tbl = Some (i, tbl') \<Longrightarrow>
   \<exists>old. stored_confidence u n c k tbl = Some old \<and>
         stored_confidence u n c k tbl' = Some (min 1 (old * 0.7 + p * 0.3))"
proof (induction tbl arbitrary: tbl')
  case Nil
  then show ?case by simp
next
  case (Cons r rs)
  show ?case
  proof (cases "conflict_target u n c (Some k) r")
    case True
    with Cons.prems have "tbl' = do_update now v p r # rs" by simp
    moreover have "conflict_target u n c (Some k) (do_update now v p r)"
      using True by (simp add: conflict_target_def do_update_def)
    ultimately show ?thesis
      using True by (simp add: stored_confidence_def do_update_def)
  next
    case False
    with Cons.prems obtain rs' where
      rs': "on_conflict_do_update (conflict_target u n c (Some k)) (do_update now v p) rs = Some (i, rs')"
      and tbl': "tbl' = r # rs'"
      by (auto split: option.splits)
    from Cons.IH[OF rs'] False tbl' show ?thesis
      by (simp add: stored_confidence_def)
  qed
qed

lemma find_snoc_absent:
  "find P tbl = None \<Longrightarrow> find P (tbl @ [x]) = (if P x then Some x else None)"
  by (induction tbl) (auto split: if_splits)

lemma on_conflict_None_iff:
  "on_conflict_do_update c f tbl = None \<longleftrightarrow> (\<forall>x\<in>set tbl. \<not> c x)"
  by (induction tbl) (auto split: option.splits)

lemma stored_confidence_upsert:
  "stored_confidence u n c k (snd (upsert_long_term_memory now fresh u n c (Some k) v p tbl)) =
     Some (case stored_confidence u n c k tbl of
             None \<Rightarrow> p
           | Some old \<Rightarrow> min 1 (old * 0.7 + p * 0.3))"
proof (cases "on_conflict_do_update (conflict_target u n c (Some k)) (do_update now v p) tbl")
  case None
  then have absent: "\<forall>x\<in>set tbl. \<not> conflict_target u n c (Some k) x"
    by (simp add: on_conflict_None_iff)
  have "find (conflict_target u n c (Some k)) tbl = None"
    using absent by (simp add: find_None_iff)
  then show ?thesis
    using None by (simp add: upsert_long_term_memory_def stored_confidence_def find_snoc_absent
        conflict_target_def)
next
  case (Some res)
  obtain i tbl' where res: "res = (i, tbl')" by (cases res)
  from on_conflict_stored_confidence[OF Some[unfolded res]] Some res show ?thesis
    by (auto simp: upsert_long_term_memory_def)
qed

lemma confidence_trace_fixed_point:
  "stored_confidence u n c k tbl = None \<or> stored_confidence u n c k tbl = Some 0.9 \<Longrightarrow>
   confidence_trace u n c k v 0.9 calls tbl = replicate (length calls) (Some 0.9)"
proof (induction calls arbitrary: tbl)
  case Nil
  show ?case by simp
next
  case (Cons call calls)
  have step: "stored_confidence u n c k
          (snd (upsert_long_term_memory (fst call) (snd call) u n c (Some k) v 0.9 tbl)) = Some 0.9"
    using Cons.prems by (auto simp: stored_confidence_upsert)
  then show ?case using Cons.IH by simp
qed

text \<open>
  Claim C7, as the code has it. On a table with no row under the key, three consecutive
  upserts of the same fact with confidence 0.9 store the confidences 0.9, 0.9, 0.9: the
  first creates the row, and 0.9 is a fixed point of the merge. The sequence is constant,
  so it does not decrease, does not exceed 1.0 and does not fall below 0.9; it is not
  raised toward 1.0.
\<close>

theorem repeated_upsert_constant:
  "(\<forall>x\<in>set tbl. \<not> conflict_target u n c (Some k) x) \<Longrightarrow>
   confidence_trace u n c k v 0.9 [call1, call2, call3] tbl = [Some 0.9, Some 0.9, Some 0.9]"
  using confidence_trace_fixed_point [of u n c k tbl v "[call1, call2, call3]"]
  by (simp add: stored_confidence_absent numeral_3_eq_3)

theorem repeated_upsert_constant_witness:
  "confidence_trace ''u1'' ''alice'' ''fact'' ''pet'' ''has a dog'' 0.9 [(20, 2), (30, 3), (40, 4)]
     [row_unkeyed] = [Some 0.9, Some 0.9, Some 0.9]"
  using repeated_upsert_constant [of "[row_unkeyed]" "''u1''" "''alice''" "''fact''" "''pet''"
      "''has a dog''" "(20, 2)" "(30, 3)" "(40, 4)"]
  by (simp add: conflict_target_def row_unkeyed_def)

text \<open>
  Claim C7 as stated fails: after the three upserts on the empty table the confidence is
  no nearer to 1.0 than after the first.
\<close>

theorem repeated_upsert_counterexample:
  "\<not> spec_raised_toward_one
       (confidence_trace ''u1'' ''alice'' ''preference'' ''favorite_food'' ''noodles'' 0.9
          [(20, 2), (30, 3), (40, 4)] [])"
  by (simp add: upsert_long_term_memory_def conflict_target_def stored_confidence_def
      do_update_def)

section \<open>Properties of the memory manager\<close>

lemma valid_alice: "isValidCharacterId (ascii ''alice'')"
  by (simp add: isValidCharacterId_def validCharacters_def toLowerCase_def ascii_def lower_unit_def)

lemma valid_Alice: "isValidCharacterId (ascii ''Alice'')"
  by (simp add: isValidCharacterId_def validCharacters_def toLowerCase_def ascii_def lower_unit_def)

lemma not_valid_create:
  "\<not> isValidCharacterId cid \<Longrightarrow>
   createNewMemoryStructure now uid cid = Inl (CannotCreateMemory cid)"
  by (simp add: createNewMemoryStructure_def)

lemma not_valid_get:
  "\<not> isValidCharacterId cid \<Longrightarrow>
   getUserMemory env now s uid cid = (Inl (CannotCreateMemory cid), s)"
  by (simp add: getUserMemory_def getUserMemory_try_def not_valid_create)

lemma not_valid_save:
  "\<not> isValidCharacterId cid \<Longrightarrow>
   saveUserMemory env now s uid cid m = (Inl (CannotSaveMemory cid), s)"
  by (simp add: saveUserMemory_def)

lemma not_valid_add:
  "\<not> isValidCharacterId cid \<Longrightarrow>
   addChatMessage env now s uid cid msg = (Inl (CannotCreateMemory cid), s)"
  by (simp add: addChatMessage_def not_valid_get)

text \<open>
  Claim C2, as the code has it. The test is made on the lower-cased identifier. When the
  lower-cased identifier is not in the registry, creating a structure, reading a memory,
  saving a memory and adding a chat message each end in an error, and the store they
  return is the store they were given: no request to Supabase or to the file system has
  been logged.
\<close>

theorem invalid_character_rejected:
  "toLowerCase cid \<notin> set validCharacters \<Longrightarrow>
   createNewMemoryStructure now uid cid = Inl (CannotCreateMemory cid) \<and>
   getUserMemory env now s uid cid = (Inl (CannotCreateMemory cid), s) \<and>
   saveUserMemory env now s uid cid m = (Inl (CannotSaveMemory cid), s) \<and>
   addChatMessage env now s uid cid msg = (Inl (CannotCreateMemory cid), s)"
proof -
  assume "toLowerCase cid \<notin> set validCharacters"
  then have invalid: "\<not> isValidCharacterId cid"
    by (simp add: isValidCharacterId_def)
  show ?thesis
    using invalid by (simp add: not_valid_create not_valid_get not_valid_save not_valid_add)
qed

theorem invalid_character_rejected_witness:
  "createNewMemoryStructure noon (ascii ''u1'') (ascii ''eve'') =
     Inl (CannotCreateMemory (ascii ''eve'')) \<and>
   getUserMemory local_env noon (file_store (stored_record (ascii ''eve'') [] 3))
       (ascii ''u1'') (ascii ''eve'') =
     (Inl (CannotCreateMemory (ascii ''eve'')), file_store (stored_record (ascii ''eve'') [] 3)) \<and>
   saveUserMemory local_env noon (file_store (stored_record (ascii ''eve'') [] 3))
       (ascii ''u1'') (ascii ''eve'')
       (projr (createNewMemoryStructure noon (ascii ''u1'') (ascii ''alice''))) =
     (Inl (CannotSaveMemory (ascii ''eve'')), file_store (stored_record (ascii ''eve'') [] 3)) \<and>
   addChatMessage local_env noon (file_store (stored_record (ascii ''eve'') [] 3))
       (ascii ''u1'') (ascii ''eve'') hello =
     (Inl (CannotCreateMemory (ascii ''eve'')), file_store (stored_record (ascii ''eve'') [] 3))"
proof -
  have "toLowerCase (ascii ''eve'') \<notin> set validCharacters"
    by (simp add: validCharacters_def toLowerCase_def ascii_def lower_unit_def)
  then show ?thesis
    by (rule invalid_character_rejected)
qed

text \<open>
  Claim C2 as stated fails for an identifier that is not in the registry and whose
  lower-cased form is: \<open>Alice\<close> is not one of the registered identifiers, and it is
  accepted. A structure is created for it, its memory file is read, and a memory is
  written for it under its own spelling.
\<close>

theorem registry_membership_counterexample:
  "ascii ''Alice'' \<notin> set validCharacters \<and>
   \<not> isl (createNewMemoryStructure noon (ascii ''u1'') (ascii ''Alice'')) \<and>
   \<not> isl (fst (getUserMemory local_env noon empty_store (ascii ''u1'') (ascii ''Alice''))) \<and>
   io_log (snd (getUserMemory local_env noon empty_store (ascii ''u1'') (ascii ''Alice''))) =
     [ReadFile (ascii ''/app/data/memories/u1_Alice.json'')] \<and>
   fst (saveUserMemory local_env noon empty_store (ascii ''u1'') (ascii ''Alice'')
          (projr (createNewMemoryStructure noon (ascii ''u1'') (ascii ''Alice'')))) = Inr () \<and>
   io_log (snd (saveUserMemory local_env noon empty_store (ascii ''u1'') (ascii ''Alice'')
          (projr (createNewMemoryStructure noon (ascii ''u1'') (ascii ''Alice''))))) =
     [WriteFile (ascii ''/app/data/memories/u1_Alice.json'')]"
proof -
  have "ascii ''Alice'' \<notin> set validCharacters"
    by (simp add: validCharacters_def ascii_def)
  moreover have "\<not> isl (createNewMemoryStructure noon (ascii ''u1'') (ascii ''Alice''))"
    by (simp add: createNewMemoryStructure_def valid_Alice)
  moreover have
    "\<not> isl (fst (getUserMemory local_env noon empty_store (ascii ''u1'') (ascii ''Alice''))) \<and>
     io_log (snd (getUserMemory local_env noon empty_store (ascii ''u1'') (ascii ''Alice''))) =
       [ReadFile (ascii ''/app/data/memories/u1_Alice.json'')]"
    by (simp add: getUserMemory_def getUserMemory_try_def valid_Alice
        createNewMemoryStructure_def local_env_def empty_store_def logged_def memoryFile_def
        Let_def)
      (simp add: ascii_def)
  moreover have
    "fst (saveUserMemory local_env noon empty_store (ascii ''u1'') (ascii ''Alice'')
          (projr (createNewMemoryStructure noon (ascii ''u1'') (ascii ''Alice'')))) = Inr () \<and>
     io_log (snd (saveUserMemory local_env noon empty_store (ascii ''u1'') (ascii ''Alice'')
          (projr (createNewMemoryStructure noon (ascii ''u1'') (ascii ''Alice''))))) =
       [WriteFile (ascii ''/app/data/memories/u1_Alice.json'')]"
    by (simp add: saveUserMemory_def valid_Alice createNewMemoryStructure_def local_env_def
        empty_store_def logged_def memoryFile_def Let_def writeMemoryFile_def)
      (simp add: ascii_def)
  ultimately show ?thesis by blast
qed








lemma memoryFile_u1_alice:
  "memoryFile local_env (ascii ''u1'') (ascii ''alice'') = ascii ''/app/data/memories/u1_alice.json''"
  by (simp add: memoryFile_def local_env_def ascii_def)


section \<open>Properties of the chat history and the relationship metrics\<close>

lemma level_updateTrust: "level (updateTrust n r) = level r"
  by (simp add: updateTrust_def Let_def)

lemma level_updateIntimacy: "level (updateIntimacy t r) = level r"
  by (simp add: updateIntimacy_def)

lemma level_updateAffection: "level (updateAffection e r) = level r"
  by (simp add: updateAffection_def)

lemma level_updateCommunicationStyle: "level (updateCommunicationStyle r) = level r"
  by (simp add: updateCommunicationStyle_def)

lemma update_level:
  "level (relationship (updateRelationshipMetrics mem msg)) =
     min 100 (totalMessages (statistics mem) div 5 + 1)"
  by (simp add: updateRelationshipMetrics_def level_updateTrust level_updateIntimacy
      level_updateAffection level_updateCommunicationStyle updateLevel_def)

lemma update_statistics:
  "statistics (updateRelationshipMetrics mem msg) = statistics mem"
  by (simp add: updateRelationshipMetrics_def)

lemma update_history:
  "fullChatHistory (updateRelationshipMetrics mem msg) = fullChatHistory mem"
  by (simp add: updateRelationshipMetrics_def)

lemma record_statistics:
  "statistics (recordChatMessage now mem msg) = updateStatistics msg (statistics mem)"
  by (simp add: recordChatMessage_def update_statistics)

lemma record_level:
  "level (relationship (recordChatMessage now mem msg)) =
     min 100 (totalMessages (statistics (recordChatMessage now mem msg)) div 5 + 1)"
  by (simp add: record_statistics) (simp add: recordChatMessage_def update_level)

lemma record_history:
  "fullChatHistory (recordChatMessage now mem msg) =
     drop (length (fullChatHistory mem) + 1 - 200) (fullChatHistory mem @ [historyEntry msg])"
  by (simp add: recordChatMessage_def update_history pushChatHistory_def Let_def slice_last_def)

lemma add_success:
  "fst (addChatMessage env now s uid cid msg) = Inr mem' \<Longrightarrow>
   \<exists>mem. fst (getUserMemory env now s uid cid) = Inr mem \<and> mem' = recordChatMessage now mem msg"
  by (auto simp: addChatMessage_def Let_def split: prod.splits sum.splits)

lemma record_characterId: "characterId (recordChatMessage now mem msg) = characterId mem"
  by (simp add: recordChatMessage_def updateRelationshipMetrics_def)

text \<open>
  A run of \<open>addChatMessage\<close> on the file store: the memory file of user \<open>u1\<close> and
  character \<open>alice\<close> holds a history \<open>h\<close> and a count of \<open>n\<close> messages.
\<close>

lemma example_loaded:
  "\<exists>loaded. fst (getUserMemory local_env noon (file_store (stored_record (ascii ''alice'') h n))
     (ascii ''u1'') (ascii ''alice'')) = Inr loaded \<and>
     characterId loaded = ascii ''alice'' \<and> fullChatHistory loaded = h \<and>
     totalMessages (statistics loaded) = n"
proof -
  obtain m where m: "createNewMemoryStructure noon (ascii ''u1'') (ascii ''alice'') = Inr m"
    by (auto simp: createNewMemoryStructure_def valid_alice)
  have stored: "files (file_store (stored_record (ascii ''alice'') h n))
                (ascii ''/app/data/memories/u1_alice.json'') =
              Some (Json (stored_record (ascii ''alice'') h n))"
    by (simp add: file_store_def)
  have cid: "s_characterId (stored_record (ascii ''alice'') h n) = Some (ascii ''alice'')"
    by (simp add: stored_record_def)
  have unavailable: "\<not> supabase_isAvailable local_env"
    by (simp add: local_env_def)
  have "fst (getUserMemory local_env noon (file_store (stored_record (ascii ''alice'') h n))
     (ascii ''u1'') (ascii ''alice'')) =
     Inr ((deepMerge m (stored_record (ascii ''alice'') h n))
            \<lparr>characterId := ascii ''alice'', userId := ascii ''u1''\<rparr>)"
    unfolding getUserMemory_def getUserMemory_try_def Let_def memoryFile_u1_alice
    by (simp add: valid_alice unavailable logged_def stored cid ensureMemoryStructure_def m)
  moreover have "fullChatHistory (deepMerge m (stored_record (ascii ''alice'') h n)) = h"
    by (simp add: deepMerge_def overrides_def stored_record_def)
  moreover have "totalMessages (statistics (deepMerge m (stored_record (ascii ''alice'') h n))) = n"
    by (simp add: deepMerge_def mergeStatistics_def stored_record_def)
  ultimately show ?thesis by simp
qed

lemma example_saved:
  assumes "characterId m = ascii ''alice''"
  shows "fst (saveUserMemory local_env noon s (ascii ''u1'') (ascii ''alice'') m) = Inr ()"
proof -
  have ok: "\<not> includes_str (ascii ''/app/data/memories/u1_alice.json'') (ascii ''..'')"
    by (simp add: ascii_def)
  have pre: "prefix (MEMORIES_DIR local_env) (ascii ''/app/data/memories/u1_alice.json'')"
    by (simp add: local_env_def ascii_def)
  have unavailable: "\<not> supabase_isAvailable local_env"
    by (simp add: local_env_def)
  show ?thesis
    unfolding saveUserMemory_def Let_def memoryFile_u1_alice
    using assms ok pre unavailable by (simp add: valid_alice)
qed

lemma example_added:
  "\<exists>loaded. fst (addChatMessage local_env noon (file_store (stored_record (ascii ''alice'') h n))
       (ascii ''u1'') (ascii ''alice'') msg) = Inr (recordChatMessage noon loaded msg) \<and>
     fullChatHistory loaded = h \<and> totalMessages (statistics loaded) = n"
proof -
  from example_loaded [of h n] obtain loaded where
    loaded: "fst (getUserMemory local_env noon (file_store (stored_record (ascii ''alice'') h n))
       (ascii ''u1'') (ascii ''alice'')) = Inr loaded"
    and fields: "characterId loaded = ascii ''alice''" "fullChatHistory loaded = h"
      "totalMessages (statistics loaded) = n"
    by blast
  obtain s1 where got: "getUserMemory local_env noon
       (file_store (stored_record (ascii ''alice'') h n)) (ascii ''u1'') (ascii ''alice'') =
       (Inr loaded, s1)"
    using loaded by (cases "getUserMemory local_env noon
       (file_store (stored_record (ascii ''alice'') h n)) (ascii ''u1'') (ascii ''alice'')") simp
  have saved: "fst (saveUserMemory local_env noon s1 (ascii ''u1'') (ascii ''alice'')
                 (recordChatMessage noon loaded msg)) = Inr ()"
    by (rule example_saved) (simp add: record_characterId fields)
  have "fst (addChatMessage local_env noon (file_store (stored_record (ascii ''alice'') h n))
       (ascii ''u1'') (ascii ''alice'') msg) = Inr (recordChatMessage noon loaded msg)"
    unfolding addChatMessage_def got Let_def
    using saved by (auto split: prod.splits sum.splits)
  with fields show ?thesis by blast
qed

text \<open>
  Claim C5. After \<open>updateRelationshipMetrics\<close> the level is
  \<open>min 100 (totalMessages div 5 + 1)\<close> of the message count that the memory then holds
  (the update leaves the count as it found it); with a count of 47 the level is 10; and
  the memory returned by a successful \<open>addChatMessage\<close>, which counts the message before
  it updates the relationship, has that level for its own count.
\<close>

theorem relationship_level_formula:
  "level (relationship (updateRelationshipMetrics mem msg)) =
     min 100 (totalMessages (statistics (updateRelationshipMetrics mem msg)) div 5 + 1) \<and>
   (totalMessages (statistics mem) = 47 \<longrightarrow>
      level (relationship (updateRelationshipMetrics mem msg)) = 10) \<and>
   (fst (addChatMessage env now s uid cid msg) = Inr mem' \<longrightarrow>
      level (relationship mem') = min 100 (totalMessages (statistics mem') div 5 + 1))"
proof (intro conjI impI)
  show "level (relationship (updateRelationshipMetrics mem msg)) =
     min 100 (totalMessages (statistics (updateRelationshipMetrics mem msg)) div 5 + 1)"
    by (simp add: update_level update_statistics)
next
  assume "totalMessages (statistics mem) = 47"
  then show "level (relationship (updateRelationshipMetrics mem msg)) = 10"
    by (simp add: update_level)
next
  assume "fst (addChatMessage env now s uid cid msg) = Inr mem'"
  then obtain loaded where "mem' = recordChatMessage now loaded msg"
    using add_success by blast
  then show "level (relationship mem') = min 100 (totalMessages (statistics mem') div 5 + 1)"
    by (simp only: record_level)
qed

theorem relationship_level_formula_witness:
  "totalMessages (statistics (projr (fst (addChatMessage local_env noon
     (file_store (stored_record (ascii ''alice'') [] 46))
     (ascii ''u1'') (ascii ''alice'') hello)))) = 47 \<and>
   level (relationship (projr (fst (addChatMessage local_env noon
     (file_store (stored_record (ascii ''alice'') [] 46))
     (ascii ''u1'') (ascii ''alice'') hello)))) = 10 \<and>
   level (relationship (updateRelationshipMetrics (projr (fst (addChatMessage local_env noon
     (file_store (stored_record (ascii ''alice'') [] 46))
     (ascii ''u1'') (ascii ''alice'') hello))) hello)) = 10"
proof -
  let ?added = "fst (addChatMessage local_env noon
     (file_store (stored_record (ascii ''alice'') [] 46))
     (ascii ''u1'') (ascii ''alice'') hello)"
  from example_added [of "[]" 46 hello] obtain loaded where
    added: "?added = Inr (recordChatMessage noon loaded hello)"
    and loaded: "totalMessages (statistics loaded) = 46"
    by blast
  have ok: "?added = Inr (projr ?added)"
    by (simp add: added)
  have messages: "totalMessages (statistics (projr ?added)) = 47"
    by (simp add: added record_statistics updateStatistics_def Let_def loaded)
  from relationship_level_formula
    [where mem = "projr ?added" and msg = hello and env = local_env and now = noon
      and s = "file_store (stored_record (ascii ''alice'') [] 46)"
      and uid = "ascii ''u1''" and cid = "ascii ''alice''" and mem' = "projr ?added"]
    ok messages
  show ?thesis by simp
qed

lemma style_updateCommunicationStyle:
  "communicationStyle (updateCommunicationStyle r) =
     (if intimacy r > 30 \<and> communicationStyle r = formal then casual
      else if intimacy r > 70 \<and> communicationStyle r = casual then intimate
      else communicationStyle r)"
  by (simp add: updateCommunicationStyle_def)

lemma intimacy_updateCommunicationStyle: "intimacy (updateCommunicationStyle r) = intimacy r"
  by (simp add: updateCommunicationStyle_def)

lemma style_before:
  "communicationStyle (updateAffection e (updateIntimacy t (updateTrust n (updateLevel k r)))) =
   communicationStyle r"
  by (simp add: updateAffection_def updateIntimacy_def updateTrust_def updateLevel_def Let_def)

lemma style_transitions:
  "communicationStyle (relationship (updateRelationshipMetrics mem msg)) =
     (if intimacy (relationship (updateRelationshipMetrics mem msg)) > 30 \<and>
         communicationStyle (relationship mem) = formal then casual
      else if intimacy (relationship (updateRelationshipMetrics mem msg)) > 70 \<and>
         communicationStyle (relationship mem) = casual then intimate
      else communicationStyle (relationship mem))"
  by (simp add: updateRelationshipMetrics_def style_updateCommunicationStyle
      intimacy_updateCommunicationStyle style_before)

lemma style_step:
  "style_rank (communicationStyle (relationship mem)) \<le>
   style_rank (communicationStyle (relationship (updateRelationshipMetrics mem msg)))"
  by (subst style_transitions) simp

lemma style_sequence:
  "style_rank (communicationStyle (relationship mem)) \<le>
   style_rank (communicationStyle (relationship (foldl updateRelationshipMetrics mem msgs)))"
proof (induction msgs arbitrary: mem)
  case Nil
  show ?case by simp
next
  case (Cons msg msgs)
  have "style_rank (communicationStyle (relationship mem)) \<le>
        style_rank (communicationStyle (relationship (updateRelationshipMetrics mem msg)))"
    by (rule style_step)
  also have "\<dots> \<le> style_rank (communicationStyle (relationship
        (foldl updateRelationshipMetrics (updateRelationshipMetrics mem msg) msgs)))"
    by (rule Cons.IH)
  finally show ?case by simp
qed

lemma intimacy_before:
  "intimacy (updateAffection e (updateIntimacy t (updateTrust n (updateLevel k r)))) =
   intimacy (updateIntimacy t r)"
  by (simp add: updateAffection_def updateIntimacy_def updateTrust_def updateLevel_def Let_def)

lemma record_style:
  "communicationStyle (relationship (recordChatMessage now mem msg)) =
   communicationStyle (relationship (updateRelationshipMetrics mem msg))"
  by (simp add: recordChatMessage_def updateRelationshipMetrics_def
      style_updateCommunicationStyle style_before intimacy_before)

text \<open>
  Claim C6. Over any sequence of relationship updates the style never moves back on the
  path formal, casual, intimate. One update moves a formal style to casual exactly when
  the intimacy it leaves is above 30, a casual style to intimate exactly when that
  intimacy is above 70, and changes the style in no other case. The update that
  \<open>addChatMessage\<close> makes after its other mutations leaves the same style.
\<close>

theorem communication_style_ratchet:
  "style_rank (communicationStyle (relationship mem)) \<le>
     style_rank (communicationStyle (relationship (foldl updateRelationshipMetrics mem msgs))) \<and>
   communicationStyle (relationship (updateRelationshipMetrics mem msg)) =
     (if intimacy (relationship (updateRelationshipMetrics mem msg)) > 30 \<and>
         communicationStyle (relationship mem) = formal then casual
      else if intimacy (relationship (updateRelationshipMetrics mem msg)) > 70 \<and>
         communicationStyle (relationship mem) = casual then intimate
      else communicationStyle (relationship mem)) \<and>
   communicationStyle (relationship (recordChatMessage now mem msg)) =
     communicationStyle (relationship (updateRelationshipMetrics mem msg))"
  using style_sequence [of mem msgs] style_transitions [of mem msg] record_style [of now mem msg]
  by (intro conjI)

theorem communication_style_ratchet_witness:
  "communicationStyle (relationship devoted) = formal \<and>
   communicationStyle (relationship (updateRelationshipMetrics devoted hello)) = casual \<and>
   communicationStyle (relationship (foldl updateRelationshipMetrics devoted [hello, hello])) =
     intimate \<and>
   style_rank (communicationStyle (relationship devoted)) \<le>
     style_rank (communicationStyle (relationship
       (foldl updateRelationshipMetrics devoted [hello, hello])))"
proof -
  have start: "communicationStyle (relationship devoted) = formal"
    "intimacy (relationship devoted) = 75"
    by (simp_all add: devoted_def createNewMemoryStructure_def valid_alice)
  have impersonal: "\<not> containsPersonalInfo (content hello)"
    by (simp add: containsPersonalInfo_def personalKeywords_def hello_def toLowerCase_def
        ascii_def lower_unit_def)
  have intimacy: "intimacy (relationship (updateRelationshipMetrics m hello)) =
                  intimacy (relationship m)" for m
    by (simp add: updateRelationshipMetrics_def intimacy_updateCommunicationStyle intimacy_before)
      (simp add: updateIntimacy_def impersonal)
  note ratchet = communication_style_ratchet [where now = noon and msg = hello]
  have first: "communicationStyle (relationship (updateRelationshipMetrics devoted hello)) = casual"
    using ratchet [where mem = devoted and msgs = "[hello, hello]"]
    by (simp add: intimacy start)
  have second: "communicationStyle (relationship
        (updateRelationshipMetrics (updateRelationshipMetrics devoted hello) hello)) = intimate"
    using ratchet [where mem = "updateRelationshipMetrics devoted hello" and msgs = "[]"]
    by (simp add: intimacy start first)
  from start first second show ?thesis by simp
qed

lemma historyEntry_fields:
  "historyEntry msg =
     \<lparr>content = content msg, emotion = emotion msg, messageLength = length (content msg),
      wordsCount = splitWhiteSpaceLength (content msg)\<rparr>"
  by (simp add: historyEntry_def message.extend_def chat_entry.fields_def)

lemma get_keeps_stores:
  "user_memories (snd (getUserMemory env now s uid cid)) = user_memories s \<and>
   files (snd (getUserMemory env now s uid cid)) = files s"
  by (simp add: getUserMemory_def getUserMemory_try_def Let_def logged_def
      split: option.splits file_content.splits sum.splits prod.splits)

lemma write_stores:
  "fs_writable env \<Longrightarrow> files (writeMemoryFile env path m s) path = Some (Json (to_stored m))"
  by (simp add: writeMemoryFile_def Let_def logged_def)

lemma save_stores:
  assumes "fst (saveUserMemory env now s1 uid cid m) = Inr u"
  shows
    "(supabase_isAvailable env \<and>
      upsert_user_memory env (user_memories s1) (replace uid (ascii ''wallet_'') []) cid
        (to_stored (m\<lparr>userId := uid, characterId := cid, lastUpdated := toISOString now,
                       memoryVersion := ascii ''2.0''\<rparr>)) = Some r
        \<longrightarrow> user_memories (snd (saveUserMemory env now s1 uid cid m)) = r) \<and>
     ((\<not> supabase_isAvailable env \<or>
       upsert_user_memory env (user_memories s1) (replace uid (ascii ''wallet_'') []) cid
         (to_stored (m\<lparr>userId := uid, characterId := cid, lastUpdated := toISOString now,
                        memoryVersion := ascii ''2.0''\<rparr>)) = None) \<and>
      fs_writable env
        \<longrightarrow> files (snd (saveUserMemory env now s1 uid cid m)) (memoryFile env uid cid) =
            Some (Json (to_stored (m\<lparr>userId := uid, characterId := cid,
                                      lastUpdated := toISOString now,
                                      memoryVersion := ascii ''2.0''\<rparr>))))"
  using assms
  by (auto simp: saveUserMemory_def Let_def logged_def write_stores
      split: if_splits option.splits)

lemma add_stores:
  assumes "fst (addChatMessage env now s uid cid msg) = Inr mem'"
  shows "\<exists>s1. user_memories s1 = user_memories s \<and>
           fst (saveUserMemory env now s1 uid cid mem') = Inr () \<and>
           snd (addChatMessage env now s uid cid msg) =
             snd (saveUserMemory env now s1 uid cid mem')"
proof -
  obtain r s1 where got: "getUserMemory env now s uid cid = (r, s1)"
    by (cases "getUserMemory env now s uid cid")
  have kept: "user_memories s1 = user_memories s"
    using get_keeps_stores [of env now s uid cid] by (simp add: got)
  from assms got obtain loaded where r: "r = Inr loaded"
    by (cases r) (auto simp: addChatMessage_def)
  obtain q s2 where saved: "saveUserMemory env now s1 uid cid (recordChatMessage now loaded msg) = (q, s2)"
    by (cases "saveUserMemory env now s1 uid cid (recordChatMessage now loaded msg)")
  from assms have q: "q = Inr ()" and mem': "mem' = recordChatMessage now loaded msg"
    by (cases q; simp add: addChatMessage_def got r saved Let_def)+
  have "snd (addChatMessage env now s uid cid msg) = s2"
    by (simp add: addChatMessage_def got r saved q Let_def)
  with kept saved q mem' show ?thesis
    by (intro exI [of _ s1]) simp
qed

text \<open>
  Claim C10. The mutation that \<open>addChatMessage\<close> applies to the loaded memory leaves the
  history with at most 200 entries: the loaded history with the new entry at its end
  (the content and the emotion of the message, the length of the content and its count
  of words), cut to its last 200 entries; exactly 200 when the loaded history had 200 or
  more. The memory returned by a successful \<open>addChatMessage\<close> is the loaded memory after
  that mutation, and the call leaves it stored, its history included, with the
  identifiers and the time of the save set: in the Supabase table when the upsert is
  accepted, and otherwise in the memory file when the file system can be written.
\<close>

theorem chat_history_bounded:
  "length (fullChatHistory (recordChatMessage now mem msg)) \<le> 200 \<and>
   fullChatHistory (recordChatMessage now mem msg) =
     drop (length (fullChatHistory mem) + 1 - 200)
       (fullChatHistory mem @
        [\<lparr>content = content msg, emotion = emotion msg, messageLength = length (content msg),
          wordsCount = splitWhiteSpaceLength (content msg)\<rparr>]) \<and>
   (200 \<le> length (fullChatHistory mem) \<longrightarrow>
      length (fullChatHistory (recordChatMessage now mem msg)) = 200) \<and>
   (fst (addChatMessage env now s uid cid msg) = Inr mem' \<longrightarrow>
      (\<exists>loaded. fst (getUserMemory env now s uid cid) = Inr loaded \<and>
         mem' = recordChatMessage now loaded msg) \<and>
      length (fullChatHistory mem') \<le> 200 \<and>
      s_fullChatHistory
        (to_stored (mem'\<lparr>userId := uid, characterId := cid, lastUpdated := toISOString now,
                          memoryVersion := ascii ''2.0''\<rparr>)) = Some (fullChatHistory mem') \<and>
      (supabase_isAvailable env \<and>
       upsert_user_memory env (user_memories s) (replace uid (ascii ''wallet_'') []) cid
         (to_stored (mem'\<lparr>userId := uid, characterId := cid, lastUpdated := toISOString now,
                           memoryVersion := ascii ''2.0''\<rparr>)) = Some r
         \<longrightarrow> user_memories (snd (addChatMessage env now s uid cid msg)) = r) \<and>
      ((\<not> supabase_isAvailable env \<or>
        upsert_user_memory env (user_memories s) (replace uid (ascii ''wallet_'') []) cid
          (to_stored (mem'\<lparr>userId := uid, characterId := cid, lastUpdated := toISOString now,
                            memoryVersion := ascii ''2.0''\<rparr>)) = None) \<and>
       fs_writable env
         \<longrightarrow> files (snd (addChatMessage env now s uid cid msg)) (memoryFile env uid cid) =
             Some (Json (to_stored (mem'\<lparr>userId := uid, characterId := cid,
                                          lastUpdated := toISOString now,
                                          memoryVersion := ascii ''2.0''\<rparr>)))))"
proof (intro conjI impI)
  show "length (fullChatHistory (recordChatMessage now mem msg)) \<le> 200"
    by (simp add: record_history)
next
  show "fullChatHistory (recordChatMessage now mem msg) =
     drop (length (fullChatHistory mem) + 1 - 200)
       (fullChatHistory mem @
        [\<lparr>content = content msg, emotion = emotion msg, messageLength = length (content msg),
          wordsCount = splitWhiteSpaceLength (content msg)\<rparr>])"
    by (simp only: record_history historyEntry_fields)
next
  assume "200 \<le> length (fullChatHistory mem)"
  then show "length (fullChatHistory (recordChatMessage now mem msg)) = 200"
    by (simp add: record_history)
next
  assume "fst (addChatMessage env now s uid cid msg) = Inr mem'"
  then show "\<exists>loaded. fst (getUserMemory env now s uid cid) = Inr loaded \<and>
         mem' = recordChatMessage now loaded msg"
    by (rule add_success)
next
  assume "fst (addChatMessage env now s uid cid msg) = Inr mem'"
  then obtain loaded where "mem' = recordChatMessage now loaded msg"
    using add_success by blast
  then show "length (fullChatHistory mem') \<le> 200"
    by (simp add: record_history)
next
  show "s_fullChatHistory
        (to_stored (mem'\<lparr>userId := uid, characterId := cid, lastUpdated := toISOString now,
                          memoryVersion := ascii ''2.0''\<rparr>)) = Some (fullChatHistory mem')"
    by (simp add: to_stored_def)
next
  assume added: "fst (addChatMessage env now s uid cid msg) = Inr mem'"
    and accepted: "supabase_isAvailable env \<and>
       upsert_user_memory env (user_memories s) (replace uid (ascii ''wallet_'') []) cid
         (to_stored (mem'\<lparr>userId := uid, characterId := cid, lastUpdated := toISOString now,
                           memoryVersion := ascii ''2.0''\<rparr>)) = Some r"
  from add_stores [OF added] obtain s1 where
    kept: "user_memories s1 = user_memories s"
    and saved: "fst (saveUserMemory env now s1 uid cid mem') = Inr ()"
    and final: "snd (addChatMessage env now s uid cid msg) =
                snd (saveUserMemory env now s1 uid cid mem')"
    by blast
  from save_stores [where r = r, OF saved, THEN conjunct1] accepted
  show "user_memories (snd (addChatMessage env now s uid cid msg)) = r"
    by (simp add: kept final)
next
  assume added: "fst (addChatMessage env now s uid cid msg) = Inr mem'"
    and fallback: "(\<not> supabase_isAvailable env \<or>
        upsert_user_memory env (user_memories s) (replace uid (ascii ''wallet_'') []) cid
          (to_stored (mem'\<lparr>userId := uid, characterId := cid, lastUpdated := toISOString now,
                            memoryVersion := ascii ''2.0''\<rparr>)) = None) \<and>
       fs_writable env"
  from add_stores [OF added] obtain s1 where
    kept: "user_memories s1 = user_memories s"
    and saved: "fst (saveUserMemory env now s1 uid cid mem') = Inr ()"
    and final: "snd (addChatMessage env now s uid cid msg) =
                snd (saveUserMemory env now s1 uid cid mem')"
    by blast
  from save_stores [OF saved, THEN conjunct2] fallback
  show "files (snd (addChatMessage env now s uid cid msg)) (memoryFile env uid cid) =
             Some (Json (to_stored (mem'\<lparr>userId := uid, characterId := cid,
                                          lastUpdated := toISOString now,
                                          memoryVersion := ascii ''2.0''\<rparr>)))"
    by (simp add: kept final)
qed

lemma drop_oldest: "drop 1 (replicate (Suc k) e @ [x]) = replicate k e @ [x]"
  by simp

lemma newest_words: "splitWhiteSpaceLength (ascii ''the newest'') = 2"
  by (simp add: splitWhiteSpaceLength_def ascii_def isWhiteSpace_def)

theorem chat_history_bounded_witness:
  "fullChatHistory (projr (fst (addChatMessage local_env noon
     (file_store (stored_record (ascii ''alice'') (replicate (Suc 199) (historyEntry hello)) 200))
     (ascii ''u1'') (ascii ''alice'') (hello\<lparr>content := ascii ''the newest''\<rparr>)))) =
     replicate 199 (historyEntry hello) @
       [\<lparr>content = ascii ''the newest'', emotion = Some (ascii ''happy''),
         messageLength = 10, wordsCount = 2\<rparr>] \<and>
   length (fullChatHistory (projr (fst (addChatMessage local_env noon
     (file_store (stored_record (ascii ''alice'') (replicate (Suc 199) (historyEntry hello)) 200))
     (ascii ''u1'') (ascii ''alice'') (hello\<lparr>content := ascii ''the newest''\<rparr>))))) = 200 \<and>
   map_option (case_file_content None s_fullChatHistory)
     (files (snd (addChatMessage local_env noon
        (file_store (stored_record (ascii ''alice'') (replicate (Suc 199) (historyEntry hello)) 200))
        (ascii ''u1'') (ascii ''alice'') (hello\<lparr>content := ascii ''the newest''\<rparr>)))
      (ascii ''/app/data/memories/u1_alice.json'')) =
     Some (Some (replicate 199 (historyEntry hello) @
       [\<lparr>content = ascii ''the newest'', emotion = Some (ascii ''happy''),
         messageLength = 10, wordsCount = 2\<rparr>]))"
proof -
  let ?msg = "hello\<lparr>content := ascii ''the newest''\<rparr>"
  let ?h = "replicate (Suc 199) (historyEntry hello)"
  let ?s = "file_store (stored_record (ascii ''alice'') ?h 200)"
  let ?added = "fst (addChatMessage local_env noon ?s (ascii ''u1'') (ascii ''alice'') ?msg)"
  let ?final = "snd (addChatMessage local_env noon ?s (ascii ''u1'') (ascii ''alice'') ?msg)"
  let ?entry = "\<lparr>content = ascii ''the newest'', emotion = Some (ascii ''happy''),
         messageLength = 10, wordsCount = 2\<rparr>"
  from example_added [of ?h 200 ?msg] obtain loaded where
    added: "?added = Inr (recordChatMessage noon loaded ?msg)"
    and loaded: "fullChatHistory loaded = ?h"
    by blast
  have ok: "?added = Inr (projr ?added)"
    unfolding added by simp
  have len: "length (fullChatHistory loaded) = 200"
    unfolding loaded length_replicate by simp
  have cut: "length (fullChatHistory loaded) + 1 - 200 = 1"
    unfolding len by simp
  have entry: "\<lparr>content = content ?msg, emotion = emotion ?msg,
                 messageLength = length (content ?msg),
                 wordsCount = splitWhiteSpaceLength (content ?msg)\<rparr> = ?entry"
    by (simp add: newest_words) (simp add: hello_def ascii_def)
  have local: "\<not> supabase_isAvailable local_env" "fs_writable local_env"
    by (simp_all add: local_env_def)
  note inst = chat_history_bounded
    [where now = noon and mem = loaded and msg = ?msg and env = local_env and s = ?s
      and uid = "ascii ''u1''" and cid = "ascii ''alice''" and mem' = "projr ?added"]
  from inst have history: "fullChatHistory (recordChatMessage noon loaded ?msg) =
          drop (length (fullChatHistory loaded) + 1 - 200)
            (fullChatHistory loaded @
             [\<lparr>content = content ?msg, emotion = emotion ?msg,
               messageLength = length (content ?msg),
               wordsCount = splitWhiteSpaceLength (content ?msg)\<rparr>])"
    by (rule conjunct2 [THEN conjunct1])
  have result: "projr ?added = recordChatMessage noon loaded ?msg"
    unfolding added by simp
  from history have "fullChatHistory (recordChatMessage noon loaded ?msg) =
      drop 1 (?h @ [?entry])"
    unfolding cut entry unfolding loaded .
  then have kept: "fullChatHistory (projr ?added) = replicate 199 (historyEntry hello) @ [?entry]"
    unfolding result drop_oldest .
  have stored: "files ?final (ascii ''/app/data/memories/u1_alice.json'') =
      Some (Json (to_stored ((projr ?added)\<lparr>userId := ascii ''u1'', characterId := ascii ''alice'',
                     lastUpdated := toISOString noon, memoryVersion := ascii ''2.0''\<rparr>)))"
    using inst ok local by (simp add: memoryFile_u1_alice)
  have "map_option (case_file_content None s_fullChatHistory)
          (files ?final (ascii ''/app/data/memories/u1_alice.json'')) =
        Some (Some (fullChatHistory (projr ?added)))"
    unfolding stored by (simp add: to_stored_def)
  with kept show ?thesis
    by simp
qed

section \<open>Properties of the episodic search\<close>

lemma where_clause_Some:
  "where_clause distance u n q thr e = Some de \<Longrightarrow>
   snd de = e \<and> em_user_id e = u \<and> em_npc_id e = n \<and>
   (\<exists>v. em_embedding e = Some v \<and> fst de = distance v q) \<and> 1 - fst de > thr"
  by (auto simp: where_clause_def split: option.splits if_splits)

lemma candidates_sound:
  assumes "de \<in> set (List.map_filter (where_clause distance u n q thr) tbl)"
  shows "snd de \<in> set tbl \<and> em_user_id (snd de) = u \<and> em_npc_id (snd de) = n \<and>
   (\<exists>v. em_embedding (snd de) = Some v \<and> fst de = distance v q) \<and> 1 - fst de > thr"
proof -
  from assms obtain e where e: "e \<in> set tbl" "where_clause distance u n q thr e = Some de"
    by (auto simp: List.map_filter_def)
  from where_clause_Some [OF e(2)] e(1) show ?thesis by auto
qed

lemma limited_subset: "set (take k (sort_key fst xs)) \<subseteq> set xs"
  using set_take_subset [of k "sort_key fst xs"] by simp

lemma limited_descending:
  "sorted_wrt (\<ge>) (map (\<lambda>de. 1 - fst de) (take k (sort_key fst (xs :: (real \<times> 'a) list))))"
proof -
  have "sorted (map fst (sort_key fst xs))" by (rule sorted_sort_key)
  then have "sorted (take k (map fst (sort_key fst xs)))" by (rule sorted_wrt_take)
  then have "sorted (map fst (take k (sort_key fst xs)))"
    by (simp add: take_map)
  then have "sorted_wrt (\<lambda>a b. fst a \<le> fst b) (take k (sort_key fst xs))"
    by (simp add: sorted_map)
  then have "sorted_wrt (\<lambda>a b. 1 - fst a \<ge> 1 - fst b) (take k (sort_key fst xs))"
    by (rule sorted_wrt_mono_rel [rotated]) simp
  then show ?thesis by (simp add: sorted_wrt_map)
qed

lemma select_columns_similarity: "match_similarity (select_columns de) = 1 - fst de"
  by (simp add: select_columns_def)

text \<open>
  Claim C3. With a match count that is not negative the search returns rows, and every
  returned row is the projection of a stored row whose user and character are the
  requested ones, whose embedding is there, and whose similarity to the query
  (one minus the distance) is above the threshold; the rows come by similarity
  descending, and there are at most \<open>p_match_count\<close> of them. A negative match count is
  an error of the query.
\<close>

theorem match_episodic_memories_sound:
  "(p_match_count < 0 \<longrightarrow>
      match_episodic_memories distance tbl u n q p_match_count thr = Inl LimitMustNotBeNegative) \<and>
   (0 \<le> p_match_count \<longrightarrow>
      (\<exists>rows. match_episodic_memories distance tbl u n q p_match_count thr = Inr rows \<and>
         (\<forall>r\<in>set rows. \<exists>e\<in>set tbl.
             em_user_id e = u \<and> em_npc_id e = n \<and>
             match_id r = em_id e \<and> match_text r = em_text e \<and>
             match_created_at r = em_created_at e \<and>
             (\<exists>v. em_embedding e = Some v \<and> match_similarity r = 1 - distance v q) \<and>
             match_similarity r > thr) \<and>
         sorted_wrt (\<ge>) (map match_similarity rows) \<and>
         int (length rows) \<le> p_match_count))"
proof (intro conjI impI)
  assume "p_match_count < 0"
  then show "match_episodic_memories distance tbl u n q p_match_count thr =
             Inl LimitMustNotBeNegative"
    by (simp add: match_episodic_memories_def)
next
  assume k: "0 \<le> p_match_count"
  define cands where "cands = List.map_filter (where_clause distance u n q thr) tbl"
  define limited where "limited = take (nat p_match_count) (sort_key fst cands)"
  have res: "match_episodic_memories distance tbl u n q p_match_count thr =
             Inr (map select_columns limited)"
    using k by (simp add: match_episodic_memories_def cands_def limited_def)
  have sound: "\<exists>e\<in>set tbl.
             em_user_id e = u \<and> em_npc_id e = n \<and>
             match_id r = em_id e \<and> match_text r = em_text e \<and>
             match_created_at r = em_created_at e \<and>
             (\<exists>v. em_embedding e = Some v \<and> match_similarity r = 1 - distance v q) \<and>
             match_similarity r > thr" if "r \<in> set (map select_columns limited)" for r
  proof -
    from that obtain de where de: "de \<in> set limited" "r = select_columns de" by auto
    from de(1) have "de \<in> set cands"
      using limited_subset [of "nat p_match_count" cands] by (auto simp: limited_def)
    from candidates_sound [OF this [unfolded cands_def]] de(2)
    show ?thesis by (auto simp: select_columns_def intro!: bexI [of _ "snd de"])
  qed
  have desc: "sorted_wrt (\<ge>) (map match_similarity (map select_columns limited))"
    using limited_descending [of "nat p_match_count" cands]
    by (simp add: limited_def comp_def select_columns_similarity)
  have len: "int (length (map select_columns limited)) \<le> p_match_count"
    using k by (simp add: limited_def)
  show "\<exists>rows. match_episodic_memories distance tbl u n q p_match_count thr = Inr rows \<and>
         (\<forall>r\<in>set rows. \<exists>e\<in>set tbl.
             em_user_id e = u \<and> em_npc_id e = n \<and>
             match_id r = em_id e \<and> match_text r = em_text e \<and>
             match_created_at r = em_created_at e \<and>
             (\<exists>v. em_embedding e = Some v \<and> match_similarity r = 1 - distance v q) \<and>
             match_similarity r > thr) \<and>
         sorted_wrt (\<ge>) (map match_similarity rows) \<and>
         int (length rows) \<le> p_match_count"
    using res sound desc len by blast
qed

lemma sqrt_25: "sqrt 25 = 5"
proof -
  have "sqrt (5\<^sup>2) = \<bar>5\<bar>" by (rule real_sqrt_abs)
  then show ?thesis by simp
qed

lemma example_distances:
  "cosine_distance [3, 4] [1, 0] = 2 / 5"
  "cosine_distance [0, 1] [1, 0] = 1"
  "cosine_distance [1, 0] [1, 0] = 0"
  "cosine_distance [4, 3] [1, 0] = 1 / 5"
  by (simp_all add: cosine_distance_def dot_def sqrt_25)

lemma example_match:
  "match_episodic_memories cosine_distance example_memories ''u1'' ''alice'' [1, 0] 2 0.3 =
     Inr [\<lparr>match_id = 5, match_text = ''passed the exam'', match_created_at = 5,
           match_similarity = 1\<rparr>,
          \<lparr>match_id = 7, match_text = ''bought a guitar'', match_created_at = 7,
           match_similarity = 0.8\<rparr>]"
  by (simp add: match_episodic_memories_def example_memories_def where_clause_def
      example_distances sort_key_def select_columns_def)

theorem match_episodic_memories_sound_witness:
  "match_episodic_memories cosine_distance example_memories ''u1'' ''alice'' [1, 0] 2 0.3 =
     Inr [\<lparr>match_id = 5, match_text = ''passed the exam'', match_created_at = 5,
           match_similarity = 1\<rparr>,
          \<lparr>match_id = 7, match_text = ''bought a guitar'', match_created_at = 7,
           match_similarity = 0.8\<rparr>] \<and>
   sorted_wrt (\<ge>) (map match_similarity
     (projr (match_episodic_memories cosine_distance example_memories ''u1'' ''alice'' [1, 0] 2 0.3))) \<and>
   int (length
     (projr (match_episodic_memories cosine_distance example_memories ''u1'' ''alice'' [1, 0] 2 0.3)))
     \<le> 2 \<and>
   match_episodic_memories cosine_distance example_memories ''u1'' ''alice'' [1, 0] (- 1) 0.3 =
     Inl LimitMustNotBeNegative"
proof -
  from match_episodic_memories_sound
    [where p_match_count = 2 and distance = cosine_distance and tbl = example_memories
      and u = "''u1''" and n = "''alice''" and q = "[1, 0]" and thr = "0.3"]
  obtain rows where
    rows: "match_episodic_memories cosine_distance example_memories ''u1'' ''alice'' [1, 0] 2 0.3 =
           Inr rows"
    and desc: "sorted_wrt (\<ge>) (map match_similarity rows)"
    and len: "int (length rows) \<le> 2"
    by auto
  from match_episodic_memories_sound
    [where p_match_count = "- 1" and distance = cosine_distance and tbl = example_memories
      and u = "''u1''" and n = "''alice''" and q = "[1, 0]" and thr = "0.3"]
  have neg: "match_episodic_memories cosine_distance example_memories ''u1'' ''alice'' [1, 0]
               (- 1) 0.3 = Inl LimitMustNotBeNegative"
    by simp
  have "rows = projr (match_episodic_memories cosine_distance example_memories ''u1'' ''alice''
                       [1, 0] 2 0.3)"
    by (simp add: rows)
  with desc len neg show ?thesis
    by (simp add: example_match)
qed

section \<open>Properties of the rolling summary\<close>

text \<open>
  Claim C8. When the system is initialised, turns are passed, the completion returns a
  text and the store accepts the upsert, the row stored for the user and character holds
  that text as its summary and the number of turns passed as its message count, whatever
  row was there before, and no other row changes. When the completion call fails, the
  state is the state before the call.
\<close>

theorem rolling_summary_refresh:
  "(initialized ms \<and> newMessages \<noteq> [] \<and>
    chat_completion env (summaryPrompt newMessages) = CompletionContent (Some newSummary) \<and>
    \<not> upsert_error env \<longrightarrow>
      rolling_summaries (updateRollingSummary env now ms uid npcId newMessages) =
        (rolling_summaries ms)((uid, npcId) \<mapsto>
           \<lparr>rs_summary = newSummary, rs_message_count = length newMessages,
            rs_updated_at = toISOString now\<rparr>)) \<and>
   (chat_completion env (summaryPrompt newMessages) = CompletionFailed \<longrightarrow>
      updateRollingSummary env now ms uid npcId newMessages = ms)"
  by (simp add: updateRollingSummary_def)

theorem rolling_summary_refresh_witness:
  "rolling_summaries
     (updateRollingSummary summarizing_env noon summarized_system (ascii ''u1'') (ascii ''alice'')
        ten_turns) (ascii ''u1'', ascii ''alice'') =
     Some \<lparr>rs_summary = ascii ''- new summary'', rs_message_count = 10,
           rs_updated_at = ascii ''2024-05-01T12:30:00.000Z''\<rparr> \<and>
   updateRollingSummary failing_env noon summarized_system (ascii ''u1'') (ascii ''alice'')
        ten_turns = summarized_system"
proof -
  have turns: "ten_turns \<noteq> []" "length ten_turns = 10"
    by (simp_all add: ten_turns_def)
  from rolling_summary_refresh
    [where ms = summarized_system and newMessages = ten_turns and env = summarizing_env
      and newSummary = "ascii ''- new summary''" and now = noon and uid = "ascii ''u1''"
      and npcId = "ascii ''alice''"]
  have "rolling_summaries
     (updateRollingSummary summarizing_env noon summarized_system (ascii ''u1'') (ascii ''alice'')
        ten_turns) (ascii ''u1'', ascii ''alice'') =
     Some \<lparr>rs_summary = ascii ''- new summary'', rs_message_count = 10,
           rs_updated_at = ascii ''2024-05-01T12:30:00.000Z''\<rparr>"
    using turns by (simp add: summarizing_env_def summarized_system_def noon_def)
  moreover from rolling_summary_refresh
    [where ms = summarized_system and newMessages = ten_turns and env = failing_env
      and now = noon and uid = "ascii ''u1''" and npcId = "ascii ''alice''"]
  have "updateRollingSummary failing_env noon summarized_system (ascii ''u1'') (ascii ''alice'')
        ten_turns = summarized_system"
    by (simp add: failing_env_def)
  ultimately show ?thesis by blast
qed

section \<open>Properties of the context assembler\<close>

lemma first_occurrences_snoc:
  "first_occurrences (xs @ [x]) =
     (if x \<in> set xs then first_occurrences xs else first_occurrences xs @ [x])"
  by (simp add: first_occurrences_def)

lemma set_first_occurrences: "set (first_occurrences xs) = set xs"
  by (simp add: first_occurrences_def)

lemma distinct_first_occurrences: "distinct (first_occurrences xs)"
  by (simp add: first_occurrences_def)

lemma push_item_absent:
  "c \<notin> set ks \<Longrightarrow>
   push_item c i (map (\<lambda>k. (k, g k)) ks) = map (\<lambda>k. (k, g k)) ks @ [(c, [i])]"
  by (induction ks) auto

lemma push_item_present:
  "distinct ks \<Longrightarrow> c \<in> set ks \<Longrightarrow>
   push_item c i (map (\<lambda>k. (k, g k)) ks) =
     map (\<lambda>k. (k, if k = c then g k @ [i] else g k)) ks"
proof (induction ks)
  case Nil
  then show ?case by simp
next
  case (Cons k ks)
  show ?case
  proof (cases "k = c")
    case True
    with Cons.prems have "c \<notin> set ks" by simp
    then have "map (\<lambda>k. (k, if k = c then g k @ [i] else g k)) ks = map (\<lambda>k. (k, g k)) ks"
      by (intro map_cong) auto
    with True show ?thesis by simp
  next
    case False
    with Cons show ?thesis by simp
  qed
qed

lemma memoryByCategory_snoc:
  "memoryByCategory (fs @ [f]) = push_item (fact_category f) (fact_item f) (memoryByCategory fs)"
  by (simp add: memoryByCategory_def)

lemma spec_groups_snoc:
  "spec_groups (fs @ [f]) = push_item (fact_category f) (fact_item f) (spec_groups fs)"
proof (cases "fact_category f \<in> set (map fact_category fs)")
  case True
  then have "fact_category f \<in> set (first_occurrences (map fact_category fs))"
    by (simp only: set_first_occurrences)
  from push_item_present [OF distinct_first_occurrences this]
  have "push_item (fact_category f) (fact_item f) (spec_groups fs) =
        map (\<lambda>k. (k, if k = fact_category f
                       then map fact_item (filter (\<lambda>m. fact_category m = k) fs) @ [fact_item f]
                       else map fact_item (filter (\<lambda>m. fact_category m = k) fs)))
          (first_occurrences (map fact_category fs))"
    by (simp add: spec_groups_def)
  moreover have "spec_groups (fs @ [f]) =
        map (\<lambda>k. (k, if k = fact_category f
                       then map fact_item (filter (\<lambda>m. fact_category m = k) fs) @ [fact_item f]
                       else map fact_item (filter (\<lambda>m. fact_category m = k) fs)))
          (first_occurrences (map fact_category fs))"
    using True by (auto simp: spec_groups_def first_occurrences_snoc)
  ultimately show ?thesis by simp
next
  case False
  then have notin: "fact_category f \<notin> set (first_occurrences (map fact_category fs))"
    by (simp add: set_first_occurrences)
  from False have none: "filter (\<lambda>m. fact_category m = fact_category f) fs = []"
    by (force simp: filter_empty_conv image_iff)
  have same: "map (\<lambda>c. (c, map fact_item (filter (\<lambda>m. fact_category m = c) (fs @ [f]))))
                (first_occurrences (map fact_category fs)) =
              map (\<lambda>c. (c, map fact_item (filter (\<lambda>m. fact_category m = c) fs)))
                (first_occurrences (map fact_category fs))"
    using notin by (intro map_cong) auto
  have "spec_groups (fs @ [f]) = spec_groups fs @ [(fact_category f, [fact_item f])]"
    using False same none by (simp add: spec_groups_def first_occurrences_snoc)
  moreover have "push_item (fact_category f) (fact_item f) (spec_groups fs) =
                 spec_groups fs @ [(fact_category f, [fact_item f])]"
    unfolding spec_groups_def by (rule push_item_absent [OF notin])
  ultimately show ?thesis by simp
qed

lemma memoryByCategory_groups: "memoryByCategory facts = spec_groups facts"
proof (induction facts rule: rev_induct)
  case Nil
  show ?case by (simp add: memoryByCategory_def spec_groups_def first_occurrences_def)
next
  case (snoc f fs)
  then show ?case by (simp only: memoryByCategory_snoc spec_groups_snoc)
qed

lemma buildContext_sections:
  "buildContextForAI ctx p =
     spec_persona_section p @ spec_summary_section (summary ctx) @
     spec_long_term_section (longTerm ctx) @ listed_episodic_section (episodic ctx)"
  by (simp add: buildContextForAI_def Let_def spec_persona_section_def spec_summary_section_def
      spec_long_term_section_def listed_episodic_section_def memoryByCategory_groups
      split: option.splits)

lemma descending_sort_id:
  assumes "sorted_wrt (\<ge>) (map snippet_similarity es)"
  shows "sort_key (\<lambda>m. - snippet_similarity m) es = es"
proof -
  from assms have "sorted_wrt (\<lambda>a b. snippet_similarity a \<ge> snippet_similarity b) es"
    by (simp add: sorted_wrt_map)
  then have "sorted_wrt (\<lambda>a b. - snippet_similarity a \<le> - snippet_similarity b) es"
    by (rule sorted_wrt_mono_rel [rotated]) simp
  then have "sorted (map (\<lambda>m. - snippet_similarity m) es)"
    by (simp add: sorted_map)
  then show ?thesis by (rule sort_key_id_if_sorted)
qed

lemma descending_filter:
  "sorted_wrt (\<ge>) (map snippet_similarity es) \<Longrightarrow>
   sorted_wrt (\<ge>) (map snippet_similarity (filter P es))"
  by (simp add: sorted_wrt_map sorted_wrt_filter)

lemma most_similar_listed:
  "sorted_wrt (\<ge>) (map snippet_similarity es) \<Longrightarrow>
   most_similar k (filter P es) = take k (filter P es)"
  by (simp add: most_similar_def descending_sort_id [OF descending_filter])

text \<open>
  Claim C9, as the code has it. The context is the persona section, then the summary
  section, then the section of long-term facts, then the episodic section, where the
  summary section is empty when the summary is missing or empty, the section of facts is
  empty when the list of facts is missing or empty and otherwise has one line for each
  category, in the order of the first fact of each, under the label of the table (the
  text of the category when the table has none), and the episodic section is empty when
  the list of snippets is missing or empty and otherwise lists the first four, in the
  order of the snapshot, of the snippets whose similarity is above 0.7. When the
  snapshot lists its snippets by similarity descending, these are the four most similar,
  and the context is the one the specification describes.
\<close>

theorem context_sections:
  "buildContextForAI ctx p =
     spec_persona_section p @ spec_summary_section (summary ctx) @
     spec_long_term_section (longTerm ctx) @ listed_episodic_section (episodic ctx) \<and>
   ((case episodic ctx of
       None \<Rightarrow> True
     | Some es \<Rightarrow> sorted_wrt (\<ge>) (map snippet_similarity es)) \<longrightarrow>
    buildContextForAI ctx p = spec_buildContext ctx p)"
proof (intro conjI impI)
  show "buildContextForAI ctx p =
     spec_persona_section p @ spec_summary_section (summary ctx) @
     spec_long_term_section (longTerm ctx) @ listed_episodic_section (episodic ctx)"
    by (rule buildContext_sections)
next
  assume "case episodic ctx of
       None \<Rightarrow> True
     | Some es \<Rightarrow> sorted_wrt (\<ge>) (map snippet_similarity es)"
  then have "listed_episodic_section (episodic ctx) = spec_episodic_section (episodic ctx)"
    by (simp add: listed_episodic_section_def spec_episodic_section_def most_similar_listed
        split: option.splits)
  then show "buildContextForAI ctx p = spec_buildContext ctx p"
    by (simp add: buildContext_sections spec_buildContext_def)
qed

lemma descending_snapshot_context:
  "buildContextForAI descending_snapshot (ascii ''kind'') =
     header_persona @ ascii ''kind'' @ [0x0A, 0x0A] @
     header_summary @ ascii ''- met today'' @ [0x0A, 0x0A] @
     header_longTerm @
     ascii ''- '' @ [0x4E8B, 0x5B9E] @ ascii '': name: Ming, '' @ default_key @ ascii '': guitar'' @ [0x0A] @
     ascii ''- trigger: '' @ default_key @ ascii '': exams'' @ [0x0A] @
     [0x0A] @
     header_episodic @
     ascii ''- s5'' @ [0x0A] @ ascii ''- s4'' @ [0x0A] @ ascii ''- s3'' @ [0x0A] @
     ascii ''- s2'' @ [0x0A] @
     [0x0A]"
  by (simp add: buildContextForAI_def descending_snapshot_def snippet_def memoryByCategory_def
      category_line_def categoryName_def categoryLabels_def fact_item_def snippet_line_def)
    (simp add: ascii_def)

theorem context_sections_witness:
  "buildContextForAI descending_snapshot (ascii ''kind'') =
     header_persona @ ascii ''kind'' @ [0x0A, 0x0A] @
     header_summary @ ascii ''- met today'' @ [0x0A, 0x0A] @
     header_longTerm @
     ascii ''- '' @ [0x4E8B, 0x5B9E] @ ascii '': name: Ming, '' @ default_key @ ascii '': guitar'' @ [0x0A] @
     ascii ''- trigger: '' @ default_key @ ascii '': exams'' @ [0x0A] @
     [0x0A] @
     header_episodic @
     ascii ''- s5'' @ [0x0A] @ ascii ''- s4'' @ [0x0A] @ ascii ''- s3'' @ [0x0A] @
     ascii ''- s2'' @ [0x0A] @
     [0x0A] \<and>
   buildContextForAI descending_snapshot (ascii ''kind'') =
     spec_buildContext descending_snapshot (ascii ''kind'')"
proof -
  have listed: "case episodic descending_snapshot of
                  None \<Rightarrow> True
                | Some es \<Rightarrow> sorted_wrt (\<ge>) (map snippet_similarity es)"
    by (simp add: descending_snapshot_def snippet_def)
  from context_sections [of descending_snapshot "ascii ''kind''", THEN conjunct2, THEN mp,
      OF listed]
  have "buildContextForAI descending_snapshot (ascii ''kind'') =
        spec_buildContext descending_snapshot (ascii ''kind'')" .
  with descending_snapshot_context show ?thesis by blast
qed

text \<open>
  Claim C9 as stated fails on a snapshot that lists five snippets above 0.7 by
  similarity ascending: the context lists the first four, and leaves out the most
  similar one, which the specification lists first.
\<close>

theorem context_most_similar_counterexample:
  "buildContextForAI ascending_snapshot (ascii ''kind'') =
     header_persona @ ascii ''kind'' @ [0x0A, 0x0A] @ header_episodic @
     ascii ''- s1'' @ [0x0A] @ ascii ''- s2'' @ [0x0A] @ ascii ''- s3'' @ [0x0A] @
     ascii ''- s4'' @ [0x0A] @ [0x0A] \<and>
   spec_buildContext ascending_snapshot (ascii ''kind'') =
     header_persona @ ascii ''kind'' @ [0x0A, 0x0A] @ header_episodic @
     ascii ''- s5'' @ [0x0A] @ ascii ''- s4'' @ [0x0A] @ ascii ''- s3'' @ [0x0A] @
     ascii ''- s2'' @ [0x0A] @ [0x0A] \<and>
   buildContextForAI ascending_snapshot (ascii ''kind'') \<noteq>
     spec_buildContext ascending_snapshot (ascii ''kind'')"
proof -
  have code: "buildContextForAI ascending_snapshot (ascii ''kind'') =
     header_persona @ ascii ''kind'' @ [0x0A, 0x0A] @ header_episodic @
     ascii ''- s1'' @ [0x0A] @ ascii ''- s2'' @ [0x0A] @ ascii ''- s3'' @ [0x0A] @
     ascii ''- s4'' @ [0x0A] @ [0x0A]"
    by (simp add: buildContextForAI_def ascending_snapshot_def snippet_def snippet_line_def)
      (simp add: ascii_def)
  have spec: "spec_buildContext ascending_snapshot (ascii ''kind'') =
     header_persona @ ascii ''kind'' @ [0x0A, 0x0A] @ header_episodic @
     ascii ''- s5'' @ [0x0A] @ ascii ''- s4'' @ [0x0A] @ ascii ''- s3'' @ [0x0A] @
     ascii ''- s2'' @ [0x0A] @ [0x0A]"
    by (simp add: spec_buildContext_def spec_persona_section_def spec_summary_section_def
        spec_long_term_section_def spec_episodic_section_def most_similar_def sort_key_def
        ascending_snapshot_def snippet_def snippet_line_def)
      (simp add: ascii_def)
  have "buildContextForAI ascending_snapshot (ascii ''kind'') \<noteq>
        spec_buildContext ascending_snapshot (ascii ''kind'')"
    unfolding code spec by (simp add: ascii_def)
  with code spec show ?thesis by blast
qed

end
